theory Spec2Isabelle
  imports Main
begin

section \<open>Python values and built-ins used by the two tools\<close>

text \<open>
  The REST client hands the tools decoded JSON: \<open>None\<close>, booleans, integers, strings,
  lists and dictionaries. A dictionary is an association list in insertion order whose keys
  are pairwise different, as a decoded JSON object is. JSON numbers with a fraction are
  outside the model. A string is a list of characters, one \<open>char\<close> per code point
  (code points up to 255).
\<close>

datatype json =
    JNull
  | JBool bool
  | JInt int
  | JStr string
  | JList "json list"
  | JDict "(string \<times> json) list"

text \<open>
  The exceptions that the modelled code can raise itself, and \<open>EnvError\<close> for an
  exception raised inside a collaborator (the REST client, the configuration parser, the
  file system), named by the collaborator.
\<close>

datatype py_exception =
    AttributeError
  | TypeError
  | NoSectionError
  | NoOptionError
  | EnvError string

text \<open>\<open>sep.join(xs)\<close> on strings.\<close>

fun str_join :: "string \<Rightarrow> string list \<Rightarrow> string" where
  "str_join sep [] = []"
| "str_join sep [x] = x"
| "str_join sep (x # y # ys) = x @ sep @ str_join sep (y # ys)"

definition digit_char :: "nat \<Rightarrow> char" where
  "digit_char n = (''0123456789abcdef'' ! n)"

function show_nat :: "nat \<Rightarrow> string" where
  "show_nat n =
     (if n < 10 then [digit_char n] else show_nat (n div 10) @ [digit_char (n mod 10)])"
  by pat_completeness auto
termination
  by (relation "measure id") auto

declare show_nat.simps [simp del]

definition show_int :: "int \<Rightarrow> string" where
  "show_int i = (if i < 0 then CHR ''-'' # show_nat (nat (- i)) else show_nat (nat i))"

definition hex2 :: "nat \<Rightarrow> string" where
  "hex2 n = [digit_char (n div 16), digit_char (n mod 16)]"

text \<open>\<open>str.isprintable\<close> on one code point below 256.\<close>

definition printable :: "char \<Rightarrow> bool" where
  "printable c = (let n = of_char c :: nat in (32 \<le> n \<and> n < 127) \<or> (161 \<le> n \<and> n \<noteq> 173))"

definition escape_char :: "char \<Rightarrow> char \<Rightarrow> string" where
  "escape_char quote c =
     (if c = quote \<or> c = CHR 0x5C then [CHR 0x5C, c]
      else if c = CHR 0x09 then [CHR 0x5C, CHR ''t'']
      else if c = CHR 0x0A then [CHR 0x5C, CHR ''n'']
      else if c = CHR 0x0D then [CHR 0x5C, CHR ''r'']
      else if printable c then [c]
      else [CHR 0x5C, CHR ''x''] @ hex2 (of_char c))"

text \<open>\<open>repr(s)\<close> of a string: single quotes unless the string has a single and no double quote.\<close>

definition str_repr :: "string \<Rightarrow> string" where
  "str_repr s =
     (let quote = (if CHR 0x27 \<in> set s \<and> CHR 0x22 \<notin> set s then CHR 0x22 else CHR 0x27)
      in [quote] @ concat (map (escape_char quote) s) @ [quote])"

fun py_repr :: "json \<Rightarrow> string" where
  "py_repr JNull = ''None''"
| "py_repr (JBool b) = (if b then ''True'' else ''False'')"
| "py_repr (JInt i) = show_int i"
| "py_repr (JStr s) = str_repr s"
| "py_repr (JList xs) = ''['' @ str_join '', '' (map py_repr xs) @ '']''"
| "py_repr (JDict kvs) =
     ''{'' @ str_join '', '' (map (\<lambda>(k, v). str_repr k @ '': '' @ py_repr v) kvs) @ ''}''"

text \<open>\<open>str(v)\<close>, which is also what \<open>'{}'.format(v)\<close> inserts.\<close>

fun py_str :: "json \<Rightarrow> string" where
  "py_str (JStr s) = s"
| "py_str v = py_repr v"

text \<open>\<open>v.get(key, default)\<close>: only a dictionary has the method.\<close>

fun py_lookup :: "json \<Rightarrow> string \<Rightarrow> py_exception + json option" where
  "py_lookup (JDict kvs) key = Inr (map_of kvs key)"
| "py_lookup v key = Inl AttributeError"

definition py_get :: "json \<Rightarrow> string \<Rightarrow> json \<Rightarrow> py_exception + json" where
  "py_get v key dflt =
     (case py_lookup v key of Inl e \<Rightarrow> Inl e | Inr None \<Rightarrow> Inr dflt | Inr (Some x) \<Rightarrow> Inr x)"

text \<open>Iterating over a value (\<open>for x in v\<close>, \<open>list(v)\<close>) and \<open>len(v)\<close>.\<close>

fun py_iter :: "json \<Rightarrow> py_exception + json list" where
  "py_iter (JList xs) = Inr xs"
| "py_iter (JDict kvs) = Inr (map (\<lambda>kv. JStr (fst kv)) kvs)"
| "py_iter (JStr s) = Inr (map (\<lambda>c. JStr [c]) s)"
| "py_iter v = Inl TypeError"

fun py_len :: "json \<Rightarrow> py_exception + nat" where
  "py_len (JList xs) = Inr (length xs)"
| "py_len (JDict kvs) = Inr (length kvs)"
| "py_len (JStr s) = Inr (length s)"
| "py_len v = Inl TypeError"

text \<open>\<open>set(xs)\<close> raises on an unhashable element (a list or a dictionary).\<close>

fun hashable :: "json \<Rightarrow> bool" where
  "hashable (JList xs) = False"
| "hashable (JDict kvs) = False"
| "hashable v = True"

definition py_set :: "json list \<Rightarrow> py_exception + json set" where
  "py_set xs = (if list_all hashable xs then Inr (set xs) else Inl TypeError)"

text \<open>\<open>sep.join(xs)\<close> raises unless every item is a string.\<close>

fun the_strings :: "json list \<Rightarrow> py_exception + string list" where
  "the_strings [] = Inr []"
| "the_strings (JStr s # xs) = (case the_strings xs of Inl e \<Rightarrow> Inl e | Inr ss \<Rightarrow> Inr (s # ss))"
| "the_strings (v # xs) = Inl TypeError"

definition py_join :: "string \<Rightarrow> json list \<Rightarrow> py_exception + string" where
  "py_join sep xs = (case the_strings xs of Inl e \<Rightarrow> Inl e | Inr ss \<Rightarrow> Inr (str_join sep ss))"

section \<open>Effects, endings and the remote service\<close>

text \<open>
  A run leaves a trace of what it printed and which calls it made on its collaborators.
  \<open>Jira_connect\<close> is the construction of the REST client, which sends nothing; the three
  events after it are requests to the service.
\<close>

datatype event =
    Stdout string
  | Stderr string
  | Jira_connect string string string
  | Jira_issue string string
  | Jira_jql string nat nat string
  | Jira_update_issue_field json "json list"

fun is_remote_call :: "event \<Rightarrow> bool" where
  "is_remote_call (Jira_issue key fields) = True"
| "is_remote_call (Jira_jql jql start limit fields) = True"
| "is_remote_call (Jira_update_issue_field key labels) = True"
| "is_remote_call e = False"

fun is_update_call :: "event \<Rightarrow> bool" where
  "is_update_call (Jira_update_issue_field key labels) = True"
| "is_update_call e = False"

fun is_stderr :: "event \<Rightarrow> bool" where
  "is_stderr (Stderr msg) = True"
| "is_stderr e = False"

text \<open>
  How a run ends: \<open>main\<close> returns, \<open>sys.exit(n)\<close> is called, or an exception is raised and
  nothing catches it. The interpreter ends with status 0 in the first case and \<open>n\<close> in the
  second; in the third it prints the traceback on standard error and ends with status 1.
\<close>

datatype ending = Returned | SysExit int | Uncaught py_exception

fun exit_code :: "ending \<Rightarrow> int" where
  "exit_code Returned = 0"
| "exit_code (SysExit n) = n"
| "exit_code (Uncaught e) = 1"

text \<open>
  The state of a run is its trace so far and the variables of \<open>main\<close>. A statement either
  goes on with a new state or ends the run.
\<close>

type_synonym 'v state = "event list \<times> 'v"

datatype 's step = Continue 's | Abort ending 's

definition emit :: "event \<Rightarrow> 'v state \<Rightarrow> 'v state" where
  "emit e s = (fst s @ [e], snd s)"

definition attempt :: "py_exception + 'a \<Rightarrow> 's \<Rightarrow> ('a \<Rightarrow> 's step) \<Rightarrow> 's step" where
  "attempt r s k = (case r of Inl e \<Rightarrow> Abort (Uncaught e) s | Inr v \<Rightarrow> k v)"

text \<open>
  The service answers a request as a function of the request and of everything the run did
  before it, so that an update may change what a later query returns.
\<close>

record jira_server =
  issue_resp :: "event list \<Rightarrow> string \<Rightarrow> string \<Rightarrow> py_exception + json"
  jql_resp :: "event list \<Rightarrow> string \<Rightarrow> nat \<Rightarrow> nat \<Rightarrow> string \<Rightarrow> py_exception + json"
  update_resp :: "event list \<Rightarrow> json \<Rightarrow> json list \<Rightarrow> py_exception option"

section \<open>The label editor (jira\_edit\_labels.py)\<close>

subsection \<open>Computing the new label list (main, lines 93 to 106)\<close>

record label_vars =
  new_labels :: "json list"
  update_labels :: bool
  printed :: "event list"

fun add_loop :: "json \<Rightarrow> json set \<Rightarrow> string list \<Rightarrow> label_vars \<Rightarrow> label_vars" where
  "add_loop issue_key old_labels_set [] v = v"
| "add_loop issue_key old_labels_set (label # rest) v =
     add_loop issue_key old_labels_set rest
       (if JStr label \<notin> old_labels_set
        then \<lparr>new_labels = new_labels v @ [JStr label],
              update_labels = True,
              printed = printed v @
                [Stdout (''Add label '' @ str_repr label @ '' to the issue '' @ py_str issue_key)]\<rparr>
        else v)"

fun remove_loop :: "json \<Rightarrow> json set \<Rightarrow> string list \<Rightarrow> label_vars \<Rightarrow> label_vars" where
  "remove_loop issue_key old_labels_set [] v = v"
| "remove_loop issue_key old_labels_set (label # rest) v =
     remove_loop issue_key old_labels_set rest
       (if JStr label \<in> old_labels_set \<and> JStr label \<in> set (new_labels v)
        then \<lparr>new_labels = remove1 (JStr label) (new_labels v),
              update_labels = True,
              printed = printed v @
                [Stdout (''Remove label '' @ str_repr label @ '' from the issue '' @ py_str issue_key)]\<rparr>
        else v)"

definition edit_labels :: "json \<Rightarrow> json list \<Rightarrow> string list \<Rightarrow> string list \<Rightarrow> label_vars" where
  "edit_labels issue_key old_labels add_labels remove_labels =
     remove_loop issue_key (set old_labels) remove_labels
       (add_loop issue_key (set old_labels) add_labels
          \<lparr>new_labels = old_labels, update_labels = False, printed = []\<rparr>)"

subsection \<open>One issue of the loop (main, lines 88 to 118)\<close>

record label_counts =
  num_issues :: nat
  num_updated_issues :: nat

definition label_issue ::
  "bool \<Rightarrow> string list \<Rightarrow> string list \<Rightarrow> jira_server \<Rightarrow> json \<Rightarrow>
     label_counts state \<Rightarrow> label_counts state step" where
  "label_issue dry_run add_labels remove_labels jira issue_dict s0 =
     (let s1 = (fst s0, (snd s0)\<lparr>num_issues := num_issues (snd s0) + 1\<rparr>) in
      attempt (py_get issue_dict ''key'' JNull) s1 (\<lambda>issue_key.
      attempt (py_get issue_dict ''fields'' JNull) s1 (\<lambda>fields.
      attempt (py_get fields ''labels'' JNull) s1 (\<lambda>old_labels.
      attempt (py_iter old_labels) s1 (\<lambda>old.
      attempt (py_set old) s1 (\<lambda>old_labels_set.
        let v = edit_labels issue_key old add_labels remove_labels;
            s2 = (fst s1 @ printed v, snd s1)
        in if update_labels v
           then
             let s3 = (fst s2, (snd s2)\<lparr>num_updated_issues := num_updated_issues (snd s2) + 1\<rparr>)
             in attempt (py_join '', '' (new_labels v)) s3 (\<lambda>joined.
                  if \<not> dry_run
                  then
                    let s4 = emit (Stdout (''Update issue '' @ py_str issue_key @
                                    '' with labels: '' @ joined)) s3;
                        s5 = emit (Jira_update_issue_field issue_key (new_labels v)) s4
                    in (case update_resp jira (fst s4) issue_key (new_labels v) of
                          Some e \<Rightarrow> Abort (Uncaught e) s5
                        | None \<Rightarrow> Continue s5)
                  else
                    Continue (emit (Stdout (''DRY RUN: I would update issue '' @
                      py_str issue_key @ '' with labels: '' @ joined)) s3))
           else Continue s2))))))"

fun state_of :: "'s step \<Rightarrow> 's" where
  "state_of (Continue s) = s"
| "state_of (Abort t s) = s"

text \<open>An issue record as the service returns it when only the labels are requested.\<close>

definition issue_with_labels :: "json \<Rightarrow> json list \<Rightarrow> json" where
  "issue_with_labels issue_key labels =
     JDict [(''key'', issue_key), (''fields'', JDict [(''labels'', JList labels)])]"

text \<open>A service that accepts every update and knows no issue, for running one step.\<close>

definition accepting_server :: jira_server where
  "accepting_server =
     \<lparr>issue_resp = (\<lambda>tr key fields. Inl (EnvError ''HTTPError'')),
      jql_resp = (\<lambda>tr jql start limit fields. Inr (JDict [(''total'', JInt 0), (''issues'', JList [])])),
      update_resp = (\<lambda>tr key labels. None)\<rparr>"

section \<open>Fetching issues page by page (jira\_get\_issues in both tools)\<close>

text \<open>
  A \<open>for\<close> loop over a generator runs the loop body on each item as it is yielded, so a
  generator is modelled as the function that takes the body and the state and runs the whole
  loop. The body may end the run, and then nothing more is requested.
\<close>

fun for_each :: "('a \<Rightarrow> 's \<Rightarrow> 's step) \<Rightarrow> 'a list \<Rightarrow> 's \<Rightarrow> 's step" where
  "for_each body [] s = Continue s"
| "for_each body (x # xs) s =
     (case body x s of Continue s' \<Rightarrow> for_each body xs s' | Abort t s' \<Rightarrow> Abort t s')"

text \<open>
  The \<open>while True\<close> loop of \<open>jira_get_issues\<close>, the same in both files: request a page of
  up to 200 issues at \<open>start\<close>, yield its issues, stop on an empty page, else go on at
  \<open>start + num_issues\<close>. The variable \<open>total\<close> is read from the first answer and never
  used. The loop need not end (a service may answer every request with a full page), so
  the result is an option and \<open>None\<close> is a run that does not end.
\<close>

partial_function (option) jira_get_issues_loop ::
  "jira_server \<Rightarrow> string \<Rightarrow> string \<Rightarrow> (json \<Rightarrow> 'v state \<Rightarrow> 'v state step) \<Rightarrow>
     nat \<Rightarrow> json \<Rightarrow> 'v state \<Rightarrow> 'v state step option" where
  "jira_get_issues_loop jira jql flds body start total0 s =
     (let s1 = emit (Jira_jql jql start 200 flds) s in
      case jql_resp jira (fst s) jql start 200 flds of
        Inl e \<Rightarrow> Some (Abort (Uncaught e) s1)
      | Inr data \<Rightarrow>
          (case (if total0 = JInt (- 1) then py_get data ''total'' JNull else Inr total0) of
             Inl e \<Rightarrow> Some (Abort (Uncaught e) s1)
           | Inr total1 \<Rightarrow>
          (case py_get data ''issues'' JNull of
             Inl e \<Rightarrow> Some (Abort (Uncaught e) s1)
           | Inr issues \<Rightarrow>
          (case py_len issues of
             Inl e \<Rightarrow> Some (Abort (Uncaught e) s1)
           | Inr num \<Rightarrow>
               if num > 0
               then
                 (case py_iter issues of
                    Inl e \<Rightarrow> Some (Abort (Uncaught e) s1)
                  | Inr items \<Rightarrow>
                      (case for_each body items s1 of
                         Abort t s2 \<Rightarrow> Some (Abort t s2)
                       | Continue s2 \<Rightarrow>
                           jira_get_issues_loop jira jql flds body (start + num) total1 s2))
               else Some (Continue s1)))))"

text \<open>
  jira\_download\_issues.py does not pass its \<open>fields\<close> parameter on, so the client's
  default \<open>*all\<close> is requested.
\<close>

definition jira_get_issues ::
  "jira_server \<Rightarrow> string \<Rightarrow> (json \<Rightarrow> 'v state \<Rightarrow> 'v state step) \<Rightarrow> 'v state \<Rightarrow>
     'v state step option" where
  "jira_get_issues jira jql body s = jira_get_issues_loop jira jql ''*all'' body 0 (JInt (- 1)) s"

text \<open>jira\_edit\_labels.py returns at once when there is no query (\<open>if not jql: return\<close>).\<close>

definition jira_get_issues_labels ::
  "jira_server \<Rightarrow> string option \<Rightarrow> string \<Rightarrow> (json \<Rightarrow> 'v state \<Rightarrow> 'v state step) \<Rightarrow>
     'v state \<Rightarrow> 'v state step option" where
  "jira_get_issues_labels jira jql flds body s =
     (case jql of
        None \<Rightarrow> Some (Continue s)
      | Some q \<Rightarrow>
          if q = [] then Some (Continue s)
          else jira_get_issues_loop jira q flds body 0 (JInt (- 1)) s)"

text \<open>
  A service that holds a fixed list of matching records and serves them in order, a page of
  at most \<open>page_size\<close> and at most the requested limit at a time.
\<close>

definition paged_server :: "json list \<Rightarrow> nat \<Rightarrow> jira_server" where
  "paged_server records page_size =
     \<lparr>issue_resp = (\<lambda>tr key flds. Inl (EnvError ''HTTPError'')),
      jql_resp = (\<lambda>tr jql start limit flds.
        Inr (JDict [(''total'', JInt (int (length records))),
                    (''issues'', JList (take (min limit page_size) (drop start records)))])),
      update_resp = (\<lambda>tr key labels. None)\<rparr>"

text \<open>The loop body that only collects what the generator yields.\<close>

definition collect :: "json \<Rightarrow> json list state \<Rightarrow> json list state step" where
  "collect issue_dict s = Continue (fst s, snd s @ [issue_dict])"

text \<open>The offsets of the pages of \<open>n\<close> records in pages of \<open>p\<close>, the last one empty.\<close>

function page_starts :: "nat \<Rightarrow> nat \<Rightarrow> nat \<Rightarrow> nat list" where
  "page_starts p n start =
     (if p = 0 \<or> n \<le> start then [start]
      else start # page_starts p n (start + min p (n - start)))"
  by pat_completeness auto
termination
  by (relation "measure (\<lambda>(p, n, start). n - start)") auto

declare page_starts.simps [simp del]

definition issues_401 :: "json list" where
  "issues_401 = map (\<lambda>n. JDict [(''id'', JInt (int n))]) [0..<401]"

section \<open>Configuration and command line (main of both tools)\<close>

text \<open>
  The parsed configuration file: the options of the DEFAULT section and the other sections,
  option names in lower case as the parser stores them.
\<close>

record ini =
  defaults :: "(string \<times> string) list"
  sections :: "(string \<times> (string \<times> string) list) list"

text \<open>
  \<open>ConfigParser.get(section, option)\<close>: a section that is not there raises unless it is the
  DEFAULT section; an option is looked up in the section and then in the defaults.
\<close>

definition cfg_get :: "ini \<Rightarrow> string \<Rightarrow> string \<Rightarrow> py_exception + string" where
  "cfg_get cfg section option =
     (case map_of (sections cfg) section of
        None \<Rightarrow>
          if section \<noteq> ''DEFAULT'' then Inl NoSectionError
          else (case map_of (defaults cfg) option of None \<Rightarrow> Inl NoOptionError | Some v \<Rightarrow> Inr v)
      | Some sectiondict \<Rightarrow>
          (case map_of sectiondict option of
             Some v \<Rightarrow> Inr v
           | None \<Rightarrow>
               (case map_of (defaults cfg) option of None \<Rightarrow> Inl NoOptionError | Some v \<Rightarrow> Inr v)))"

text \<open>\<open>ConfigParser.get(section, option, fallback=None)\<close>: both errors give the fallback.\<close>

definition cfg_get_fallback :: "ini \<Rightarrow> string \<Rightarrow> string \<Rightarrow> string option" where
  "cfg_get_fallback cfg section option =
     (case cfg_get cfg section option of Inl e \<Rightarrow> None | Inr v \<Rightarrow> Some v)"

text \<open>The arguments that both tools take, and those of each tool.\<close>

record args =
  arg_atlassian_domain :: "string option"
  arg_config_file :: string
  arg_jql :: "string option"

record label_args = args +
  arg_dry_run :: bool
  arg_keys :: "string list"
  arg_add_labels :: "string list"
  arg_remove_labels :: "string list"

record download_args = args +
  arg_dest_dir :: string
  arg_output_format :: string
  arg_download_attachments :: bool

text \<open>What a run finds around it: the file system, the configuration parser, the service.\<close>

record env =
  isfile :: "string \<Rightarrow> bool"
  read_config :: "string \<Rightarrow> py_exception + ini"
  makedirs :: "string \<Rightarrow> py_exception option"
  connect :: "string \<Rightarrow> string \<Rightarrow> string \<Rightarrow> jira_server"

text \<open>Truth value of an optional string argument: \<open>None\<close> and the empty string are false.\<close>

fun given :: "string option \<Rightarrow> bool" where
  "given None = False"
| "given (Some s) = (s \<noteq> [])"

text \<open>
  Lines 46 to 59 of jira\_edit\_labels.py and lines 549 to 562 of jira\_download\_issues.py,
  which are the same: find the configuration file, read it, choose the domain, read the user
  and the token of the domain's section. The rest of \<open>main\<close> is the continuation.
\<close>

definition load_credentials ::
  "env \<Rightarrow> 'a args_scheme \<Rightarrow> 'v state \<Rightarrow>
     (ini \<Rightarrow> string \<Rightarrow> string \<Rightarrow> string \<Rightarrow> 'v state step option) \<Rightarrow> 'v state step option" where
  "load_credentials env args s k =
     (if \<not> isfile env (arg_config_file args)
      then Some (Abort (SysExit 1)
             (emit (Stderr (''Error: Configuration file '' @ arg_config_file args @ '' not found'')) s))
      else
        (case read_config env (arg_config_file args) of
           Inl e \<Rightarrow> Some (Abort (Uncaught e) s)
         | Inr cfg_parser \<Rightarrow>
        (case (if given (arg_atlassian_domain args) then Inr (the (arg_atlassian_domain args))
               else cfg_get cfg_parser ''DEFAULT'' ''domain'') of
           Inl e \<Rightarrow> Some (Abort (Uncaught e) s)
         | Inr atlassian_domain \<Rightarrow>
        (case cfg_get_fallback cfg_parser atlassian_domain ''user'' of
           None \<Rightarrow> Some (Abort (SysExit 1)
             (emit (Stderr (''Error: user is not specified in configuration file '' @
                arg_config_file args)) s))
         | Some user \<Rightarrow>
        (case cfg_get_fallback cfg_parser atlassian_domain ''api_token'' of
           None \<Rightarrow> Some (Abort (SysExit 1)
             (emit (Stderr (''Error: api_token is not specified in configuration file '' @
                arg_config_file args)) s))
         | Some password \<Rightarrow> k cfg_parser atlassian_domain user password)))))"

subsection \<open>main of jira\_edit\_labels.py\<close>

fun jira_get_issues_from_keys ::
  "jira_server \<Rightarrow> string list \<Rightarrow> string \<Rightarrow> (json \<Rightarrow> 'v state \<Rightarrow> 'v state step) \<Rightarrow>
     'v state \<Rightarrow> 'v state step" where
  "jira_get_issues_from_keys jira [] flds body s = Continue s"
| "jira_get_issues_from_keys jira (key # rest) flds body s =
     (case issue_resp jira (fst s) key flds of
        Inl e \<Rightarrow> Abort (Uncaught e) (emit (Jira_issue key flds) s)
      | Inr issue_dict \<Rightarrow>
          (case body issue_dict (emit (Jira_issue key flds) s) of
             Abort t s' \<Rightarrow> Abort t s'
           | Continue s' \<Rightarrow> jira_get_issues_from_keys jira rest flds body s'))"

text \<open>A finished run: its trace and how it ended.\<close>

type_synonym run = "event list \<times> ending"

fun finish :: "'v state step \<Rightarrow> run" where
  "finish (Continue s) = (fst s, Returned)"
| "finish (Abort t s) = (fst s, t)"

text \<open>Lines 61 to 123: what \<open>main\<close> does once it has the credentials.\<close>

definition main_labels_rest ::
  "env \<Rightarrow> label_args \<Rightarrow> ini \<Rightarrow> string \<Rightarrow> string \<Rightarrow> string \<Rightarrow> label_counts state step option" where
  "main_labels_rest env args cfg_parser atlassian_domain user password =
     (let s =
        (map Stdout
          [if given (arg_jql args) then ''JQL: '' @ the (arg_jql args)
           else ''No JQL specified'',
           if arg_keys args \<noteq> [] then ''Jira keys: '' @ str_join '', '' (arg_keys args)
           else ''No Jira keys specified'',
           if arg_add_labels args \<noteq> []
           then ''Add labels: '' @ str_join '', '' (arg_add_labels args)
           else ''There are no labels to add'',
           if arg_remove_labels args \<noteq> []
           then ''Remove labels: '' @ str_join '', '' (arg_remove_labels args)
           else ''There are no labels to remove''],
         \<lparr>num_issues = 0, num_updated_issues = 0\<rparr>)
      in
      if arg_add_labels args = [] \<and> arg_remove_labels args = []
      then Some (Abort (SysExit 1)
             (emit (Stderr ''Error: no labels specified for adding and/or removing'') s))
      else
        (case arg_atlassian_domain args of
           None \<Rightarrow> Some (Abort (Uncaught TypeError) s)
         | Some domain \<Rightarrow>
             let jira = connect env (''https://'' @ domain) user password;
                 body = label_issue (arg_dry_run args) (arg_add_labels args)
                          (arg_remove_labels args) jira
             in
             (case jira_get_issues_from_keys jira (arg_keys args) ''*all'' body
                     (emit (Jira_connect (''https://'' @ domain) user password) s) of
                Abort t s' \<Rightarrow> Some (Abort t s')
              | Continue s' \<Rightarrow>
                  (case jira_get_issues_labels jira (arg_jql args) ''labels'' body s' of
                     None \<Rightarrow> None
                   | Some (Abort t s'') \<Rightarrow> Some (Abort t s'')
                   | Some (Continue s'') \<Rightarrow>
                       Some (Continue
                         (fst s'' @ map Stdout
                            [''Processed '' @ show_nat (num_issues (snd s'')) @ '' issue(s)'',
                             if \<not> arg_dry_run args
                             then ''Updated '' @ show_nat (num_updated_issues (snd s'')) @
                                    '' issue(s)''
                             else ''DRY RUN: I would have updated '' @
                                    show_nat (num_updated_issues (snd s'')) @ '' issue(s)''],
                          snd s''))))))"

definition main_labels :: "env \<Rightarrow> label_args \<Rightarrow> run option" where
  "main_labels env args =
     map_option finish
       (load_credentials env args ([], \<lparr>num_issues = 0, num_updated_issues = 0\<rparr>)
          (main_labels_rest env args))"

subsection \<open>main of jira\_download\_issues.py\<close>

text \<open>
  Lines 549 to 575 and 606. What is done with each issue record (lines 576 to 604: wrapping
  it, writing its file, fetching its attachments) is the loop body \<open>output_issue\<close>, which is
  given the chosen domain and the service.
\<close>

definition main_download_rest ::
  "env \<Rightarrow> download_args \<Rightarrow> (string \<Rightarrow> jira_server \<Rightarrow> json \<Rightarrow> nat state \<Rightarrow> nat state step) \<Rightarrow>
     ini \<Rightarrow> string \<Rightarrow> string \<Rightarrow> string \<Rightarrow> nat state step option" where
  "main_download_rest env args output_issue cfg_parser atlassian_domain user password =
     (case (if given (arg_jql args) then Inr (the (arg_jql args))
            else cfg_get cfg_parser ''DEFAULT'' ''jql'') of
        Inl e \<Rightarrow> Some (Abort (Uncaught e) ([], 0))
      | Inr jql \<Rightarrow>
          let s =
            (map Stdout
              [''Atlassian domain: '' @ atlassian_domain,
               ''Atlassian user: '' @ user,
               ''Output issues to the directory: '' @ arg_dest_dir args,
               ''Output format: '' @ arg_output_format args,
               ''JQL: '' @ jql], 0)
          in
          (case makedirs env (arg_dest_dir args) of
             Some e \<Rightarrow> Some (Abort (Uncaught e) s)
           | None \<Rightarrow>
               let jira = connect env (''https://'' @ atlassian_domain) user password in
               (case jira_get_issues jira jql (output_issue atlassian_domain jira)
                       (emit (Jira_connect (''https://'' @ atlassian_domain) user password) s) of
                  None \<Rightarrow> None
                | Some (Abort t s') \<Rightarrow> Some (Abort t s')
                | Some (Continue s') \<Rightarrow>
                    Some (Continue
                      (fst s' @ [Stdout (''Downloaded '' @ show_nat (snd s') @ '' issues'')],
                       snd s')))))"

definition main_download ::
  "env \<Rightarrow> download_args \<Rightarrow> (string \<Rightarrow> jira_server \<Rightarrow> json \<Rightarrow> nat state \<Rightarrow> nat state step) \<Rightarrow>
     run option" where
  "main_download env args output_issue =
     map_option finish
       (load_credentials env args ([], 0) (main_download_rest env args output_issue))"

text \<open>
  What the operating system sees of a run: the trace, with the traceback that the interpreter
  prints on standard error for an exception that nothing caught, and the exit status.
\<close>

fun script :: "run \<Rightarrow> event list \<times> int" where
  "script (tr, Uncaught e) = (tr @ [Stderr ''Traceback (most recent call last):''], 1)"
| "script (tr, t) = (tr, exit_code t)"

text \<open>A run ends with status 1 and a message on standard error, having sent no request.\<close>

definition fails_before_remote_call :: "run option \<Rightarrow> bool" where
  "fails_before_remote_call r =
     (case r of
        None \<Rightarrow> False
      | Some x \<Rightarrow>
          snd (script x) = 1 \<and> list_ex is_stderr (fst (script x)) \<and>
          \<not> list_ex is_remote_call (fst (script x)))"

text \<open>
  The configuration lacks something a run needs: the file is not there, it cannot be parsed,
  no domain is given on the command line and none is in the DEFAULT section, or the user or the
  token cannot be had for the chosen domain.
\<close>

definition config_problem :: "env \<Rightarrow> 'a args_scheme \<Rightarrow> bool" where
  "config_problem env args =
     (if \<not> isfile env (arg_config_file args) then True
      else
        (case read_config env (arg_config_file args) of
           Inl e \<Rightarrow> True
         | Inr cfg \<Rightarrow>
             (case (if given (arg_atlassian_domain args) then Inr (the (arg_atlassian_domain args))
                    else cfg_get cfg ''DEFAULT'' ''domain'') of
                Inl e \<Rightarrow> True
              | Inr d \<Rightarrow>
                  cfg_get_fallback cfg d ''user'' = None \<or>
                  cfg_get_fallback cfg d ''api_token'' = None)))"

fun is_connect :: "event \<Rightarrow> bool" where
  "is_connect (Jira_connect url user password) = True"
| "is_connect e = False"

fun connect_url :: "event \<Rightarrow> string option" where
  "connect_url (Jira_connect url user password) = Some url"
| "connect_url e = None"

definition example_ini :: ini where
  "example_ini =
     \<lparr>defaults = [(''domain'', ''example.atlassian.net''), (''jql'', ''project = X'')],
      sections = [(''example.atlassian.net'', [(''user'', ''me''), (''api_token'', ''secret'')]),
                  (''other.atlassian.net'', [(''user'', ''you''), (''api_token'', ''hidden'')])]\<rparr>"

definition example_env :: "bool \<Rightarrow> py_exception + ini \<Rightarrow> env" where
  "example_env there parsed =
     \<lparr>isfile = (\<lambda>f. there), read_config = (\<lambda>f. parsed), makedirs = (\<lambda>d. None),
      connect = (\<lambda>url user password. accepting_server)\<rparr>"

definition example_label_args :: "string option \<Rightarrow> string list \<Rightarrow> label_args" where
  "example_label_args domain add =
     \<lparr>arg_atlassian_domain = domain, arg_config_file = ''config.ini'', arg_jql = None,
      arg_dry_run = False, arg_keys = [], arg_add_labels = add, arg_remove_labels = []\<rparr>"

definition example_download_args :: "string option \<Rightarrow> download_args" where
  "example_download_args domain =
     \<lparr>arg_atlassian_domain = domain, arg_config_file = ''config.ini'', arg_jql = None,
      arg_dest_dir = ''issues'', arg_output_format = ''text'', arg_download_attachments = False\<rparr>"

section \<open>The record wrappers (jira\_download\_issues.py)\<close>

text \<open>\<open>a == b\<close> on decoded JSON: a boolean equals the integer 0 or 1, a dictionary equals a
  dictionary with the same keys and equal values, whatever the order.\<close>

fun py_eq :: "json \<Rightarrow> json \<Rightarrow> bool" where
  "py_eq JNull JNull = True"
| "py_eq (JBool a) (JBool b) = (a = b)"
| "py_eq (JBool a) (JInt b) = ((if a then 1 else 0) = b)"
| "py_eq (JInt a) (JBool b) = (a = (if b then 1 else 0))"
| "py_eq (JInt a) (JInt b) = (a = b)"
| "py_eq (JStr a) (JStr b) = (a = b)"
| "py_eq (JList xs) (JList ys) = list_all2 py_eq xs ys"
| "py_eq (JDict kvs) (JDict kws) =
     (length kvs = length kws \<and>
      list_all (\<lambda>kv. case map_of kws (fst kv) of None \<Rightarrow> False | Some w \<Rightarrow> py_eq (snd kv) w) kvs)"
| "py_eq a b = False"

text \<open>
  \<open>NOT_DOWNLOADED\<close> is the one instance of the class \<open>NotDownloaded\<close>; an attribute or a
  field is that instance or a value.
\<close>

datatype 'a fetched = NOT_DOWNLOADED | Fetched (obj: 'a)

text \<open>
  \<open>have_data(value)\<close>, for the attributes that \<open>create_object_from_field\<close> sets: they are
  \<open>NOT_DOWNLOADED\<close> or a wrapper, never \<open>None\<close>.
\<close>

fun have_data :: "'a fetched \<Rightarrow> bool" where
  "have_data NOT_DOWNLOADED = False"
| "have_data (Fetched v) = True"

text \<open>Running one step after another, the first exception ending it.\<close>

definition and_then :: "'e + 'a \<Rightarrow> ('a \<Rightarrow> 'e + 'b) \<Rightarrow> 'e + 'b" where
  "and_then r k = (case r of Inl e \<Rightarrow> Inl e | Inr v \<Rightarrow> k v)"

fun try_map :: "('a \<Rightarrow> 'e + 'b) \<Rightarrow> 'a list \<Rightarrow> 'e + 'b list" where
  "try_map f [] = Inr []"
| "try_map f (x # xs) =
     (case f x of
        Inl e \<Rightarrow> Inl e
      | Inr y \<Rightarrow> (case try_map f xs of Inl e \<Rightarrow> Inl e | Inr ys \<Rightarrow> Inr (y # ys)))"

lemma and_then_cong [fundef_cong]:
  "r = r' \<Longrightarrow> (\<And>v. r' = Inr v \<Longrightarrow> k v = k' v) \<Longrightarrow> and_then r k = and_then r' k'"
  by (auto simp: and_then_def split: sum.splits)

lemma try_map_cong [fundef_cong]:
  "xs = ys \<Longrightarrow> (\<And>x. x \<in> set ys \<Longrightarrow> f x = g x) \<Longrightarrow> try_map f xs = try_map g ys"
  by (induction ys arbitrary: xs) (auto split: sum.splits)

subsection \<open>JiraRestObject\<close>

text \<open>
  A wrapper is an instance of one of the classes, all subclasses of \<open>JiraRestObject\<close>, around
  its payload \<open>_data\<close>. What else Python may compare a wrapper with is a plain value or the
  \<open>NOT_DOWNLOADED\<close> instance.
\<close>

datatype jira_class =
    JiraRestObject | JiraIdObject | JiraNamedObject | JiraProject | JiraAuthor
  | JiraCommentList | JiraComment | JiraResolution | JiraStatusCategory | JiraStatus
  | JiraPriority | JiraIssueType | JiraAttachment | JiraIssue

datatype py_object = Wrapper jira_class json | Plain json | NotDownloaded

definition get_value :: "json \<Rightarrow> string \<Rightarrow> json \<Rightarrow> py_exception + json" where
  "get_value data key dflt = py_get data key dflt"

definition self_url :: "json \<Rightarrow> py_exception + json" where
  "self_url data = get_value data ''self'' JNull"

text \<open>
  \<open>__eq__\<close> of a wrapper of class \<open>cls\<close> with payload \<open>data\<close>, inherited by every class:
  \<open>isinstance(other, JiraRestObject) and self.self_url == other.self_url\<close>.
\<close>

fun JiraRestObject_eq :: "jira_class \<Rightarrow> json \<Rightarrow> py_object \<Rightarrow> py_exception + bool" where
  "JiraRestObject_eq cls data (Wrapper c other_data) =
     and_then (self_url data) (\<lambda>a. and_then (self_url other_data) (\<lambda>b. Inr (py_eq a b)))"
| "JiraRestObject_eq cls data other = Inr False"

text \<open>\<open>create_object_from_value\<close>; the wrapper classes it is used with only store the value.\<close>

definition create_object_from_value :: "json \<Rightarrow> string \<Rightarrow> py_exception + json option" where
  "create_object_from_value data key =
     and_then (get_value data key JNull) (\<lambda>v. if v \<noteq> JNull then Inr (Some v) else Inr None)"

subsection \<open>Author, resolution, comment, comment list, status, attachment\<close>

definition display_name :: "json \<Rightarrow> py_exception + json" where
  "display_name author = get_value author ''displayName'' JNull"

definition JiraAuthor_to_struct :: "json \<Rightarrow> py_exception + json" where
  "JiraAuthor_to_struct author =
     and_then (display_name author) (\<lambda>n. Inr (JDict [(''displayName'', n)]))"

definition JiraAuthor_to_text :: "json \<Rightarrow> py_exception + json" where
  "JiraAuthor_to_text author = display_name author"

definition JiraResolution_to_struct :: "json \<Rightarrow> py_exception + json" where
  "JiraResolution_to_struct resolution =
     and_then (get_value resolution ''description'' JNull) (\<lambda>description.
     and_then (get_value resolution ''name'' JNull) (\<lambda>name.
       Inr (JDict [(''type'', JStr ''JiraResolution''), (''description'', description),
                   (''name'', name)])))"

record jira_comment =
  comment_data :: json
  author_object :: "json option"

definition new_JiraComment :: "json \<Rightarrow> py_exception + jira_comment" where
  "new_JiraComment data =
     and_then (create_object_from_value data ''author'') (\<lambda>a.
       Inr \<lparr>comment_data = data, author_object = a\<rparr>)"

definition JiraComment_to_struct :: "jira_comment \<Rightarrow> py_exception + json" where
  "JiraComment_to_struct c =
     and_then (get_value (comment_data c) ''body'' JNull) (\<lambda>body.
     and_then (get_value (comment_data c) ''created'' JNull) (\<lambda>created.
     and_then (get_value (comment_data c) ''updated'' JNull) (\<lambda>updated.
       case author_object c of
         None \<Rightarrow> Inr (JDict [(''body'', body), (''created'', created), (''updated'', updated)])
       | Some a \<Rightarrow>
           and_then (JiraAuthor_to_struct a) (\<lambda>author.
             Inr (JDict [(''body'', body), (''created'', created), (''updated'', updated),
                         (''author'', author)])))))"

definition JiraComment_to_text :: "jira_comment \<Rightarrow> py_exception + string" where
  "JiraComment_to_text c =
     and_then (case author_object c of
                 None \<Rightarrow> Inr (JStr ''<unknown author>'')
               | Some a \<Rightarrow> JiraAuthor_to_text a) (\<lambda>author.
     and_then (get_value (comment_data c) ''created'' JNull) (\<lambda>created.
       let author_and_date = py_str author @ '' '' @ py_str created;
           sep = replicate (length author_and_date) CHR ''-''
       in and_then (get_value (comment_data c) ''body'' JNull) (\<lambda>body.
            Inr (sep @ [CHR 0x0A] @ author_and_date @ [CHR 0x0A] @ sep @ [CHR 0x0A] @
                 py_str body @ [CHR 0x0A]))))"

record jira_comment_list =
  comment_list_data :: json
  comment_objects :: "jira_comment list"

definition new_JiraCommentList :: "json \<Rightarrow> py_exception + jira_comment_list" where
  "new_JiraCommentList data =
     and_then (get_value data ''comments'' (JList [])) (\<lambda>v.
     and_then (py_iter v) (\<lambda>items.
     and_then (try_map new_JiraComment items) (\<lambda>cs.
       Inr \<lparr>comment_list_data = data, comment_objects = cs\<rparr>)))"

definition JiraCommentList_to_struct :: "jira_comment_list \<Rightarrow> py_exception + json" where
  "JiraCommentList_to_struct cl =
     and_then (try_map JiraComment_to_struct (comment_objects cl)) (\<lambda>cs. Inr (JList cs))"

definition JiraCommentList_to_text :: "jira_comment_list \<Rightarrow> py_exception + string" where
  "JiraCommentList_to_text cl =
     and_then (try_map JiraComment_to_text (comment_objects cl)) (\<lambda>ts.
       Inr (str_join [CHR 0x0A] ts))"

record jira_status =
  status_data :: json
  status_category :: "json option"

definition new_JiraStatus :: "json \<Rightarrow> py_exception + jira_status" where
  "new_JiraStatus data =
     and_then (create_object_from_value data ''statusCategory'') (\<lambda>c.
       Inr \<lparr>status_data = data, status_category = c\<rparr>)"

record jira_attachment =
  attachment_data :: json
  attachment_author :: "json option"

definition new_JiraAttachment :: "json \<Rightarrow> py_exception + jira_attachment" where
  "new_JiraAttachment data =
     and_then (create_object_from_value data ''author'') (\<lambda>a.
       Inr \<lparr>attachment_data = data, attachment_author = a\<rparr>)"

subsection \<open>JiraIssue\<close>

datatype jira_issue =
  Issue
    (issue_data: json)
    (issue_fields: json)
    (parent_issue: "jira_issue fetched")
    (resolution_object: "json fetched")
    (comments: "jira_comment_list fetched")
    (status: "jira_status fetched")
    (priority: "json fetched")
    (reporter: "json fetched")
    (assignee: "json fetched")
    (issuetype: "json fetched")
    (subtasks: "jira_issue list")
    (attachment: "jira_attachment list")

text \<open>\<open>get_field(field_name)\<close> with its default \<open>NOT_DOWNLOADED\<close>.\<close>

definition get_field :: "json \<Rightarrow> string \<Rightarrow> py_exception + json fetched" where
  "get_field flds field_name =
     (case py_lookup flds field_name of
        Inl e \<Rightarrow> Inl e
      | Inr None \<Rightarrow> Inr NOT_DOWNLOADED
      | Inr (Some v) \<Rightarrow> Inr (Fetched v))"

text \<open>
  \<open>create_object_from_field(cls, key)\<close>, \<open>cls\<close> given by its constructor: a field that is
  absent and a field that is null both give \<open>NOT_DOWNLOADED\<close>.
\<close>

definition create_object_from_field ::
  "(json \<Rightarrow> py_exception + 'a) \<Rightarrow> json \<Rightarrow> string \<Rightarrow> py_exception + 'a fetched" where
  "create_object_from_field cls flds key =
     and_then (get_field flds key) (\<lambda>fv.
       case fv of
         NOT_DOWNLOADED \<Rightarrow> Inr NOT_DOWNLOADED
       | Fetched v \<Rightarrow>
           if v \<noteq> JNull then and_then (cls v) (\<lambda>obj. Inr (Fetched obj))
           else Inr NOT_DOWNLOADED)"

lemma create_object_from_field_cong [fundef_cong]:
  "flds = flds' \<Longrightarrow> key = key' \<Longrightarrow>
   (\<And>v. py_lookup flds' key' = Inr (Some v) \<Longrightarrow> cls v = cls' v) \<Longrightarrow>
   create_object_from_field cls flds key = create_object_from_field cls' flds' key'"
  by (auto simp: create_object_from_field_def get_field_def and_then_def
      split: sum.splits option.splits fetched.splits)

text \<open>The constructors that only store the value.\<close>

definition plain_wrapper :: "json \<Rightarrow> py_exception + json" where
  "plain_wrapper v = Inr v"

lemma size_py_lookup: "py_lookup d key = Inr (Some v) \<Longrightarrow> size v < size d"
proof (cases d)
  case (JDict kvs)
  assume "py_lookup d key = Inr (Some v)"
  with JDict have "(key, v) \<in> set kvs" by (auto dest: map_of_SomeD)
  then have "size v < Suc (size_list (size_prod (\<lambda>_. 0) size) kvs)"
    by (induction kvs) auto
  with JDict show ?thesis by simp
qed auto

lemma size_py_get: "py_get d key dflt = Inr v \<Longrightarrow> v = dflt \<or> size v < size d"
  by (auto simp: py_get_def split: sum.splits option.splits dest: size_py_lookup)

lemma size_py_iter: "py_iter v = Inr items \<Longrightarrow> x \<in> set items \<Longrightarrow> size x \<le> size v"
proof (cases v)
  case (JList xs)
  assume "py_iter v = Inr items" "x \<in> set items"
  with JList have "x \<in> set xs" by simp
  then have "size x < Suc (size_list size xs)" by (induction xs) auto
  with JList show ?thesis by simp
qed auto

function new_JiraIssue :: "json \<Rightarrow> py_exception + jira_issue" where
  "new_JiraIssue data =
     and_then (get_value data ''fields'' JNull) (\<lambda>flds.
     and_then (create_object_from_field new_JiraIssue flds ''parent'') (\<lambda>parent_issue.
     and_then (create_object_from_field plain_wrapper flds ''resolution'') (\<lambda>resolution_object.
     and_then (create_object_from_field new_JiraCommentList flds ''comment'') (\<lambda>comments.
     and_then (create_object_from_field new_JiraStatus flds ''status'') (\<lambda>status.
     and_then (create_object_from_field plain_wrapper flds ''priority'') (\<lambda>priority.
     and_then (create_object_from_field plain_wrapper flds ''reporter'') (\<lambda>reporter.
     and_then (create_object_from_field plain_wrapper flds ''assignee'') (\<lambda>assignee.
     and_then (create_object_from_field plain_wrapper flds ''issuetype'') (\<lambda>issuetype.
     and_then (py_get flds ''subtasks'' (JList [])) (\<lambda>sv.
     and_then (py_iter sv) (\<lambda>sitems.
     and_then (try_map new_JiraIssue sitems) (\<lambda>subtasks.
     and_then (py_get flds ''attachment'' (JList [])) (\<lambda>av.
     and_then (py_iter av) (\<lambda>aitems.
     and_then (try_map new_JiraAttachment aitems) (\<lambda>attachment.
       Inr (Issue data flds parent_issue resolution_object comments status priority reporter
              assignee issuetype subtasks attachment))))))))))))))))"
  by pat_completeness auto
termination
proof (relation "measure size", goal_cases)
  case 1
  then show ?case by simp
next
  case (2 data flds v)
  then show ?case
    by (auto simp: get_value_def dest!: size_py_get size_py_lookup)
next
  case (3 data flds parent_issue resolution_object comments status priority reporter assignee
      issuetype sv sitems x)
  from 3(1) have "flds = JNull \<or> size flds < size data"
    by (auto simp: get_value_def dest: size_py_get)
  moreover from 3(10) have "sv = JList [] \<or> size sv < size flds"
    by (auto dest: size_py_get)
  moreover from 3(11,12) have "size x \<le> size sv"
    by (rule size_py_iter)
  ultimately show ?case using 3(10,11,12) by auto
qed

declare new_JiraIssue.simps [simp del]

definition issue_key :: "jira_issue \<Rightarrow> py_exception + json" where
  "issue_key i = get_value (issue_data i) ''key'' JNull"

text \<open>
  \<open>to_struct\<close>: the dictionary literal, then the three entries that are added for the
  sub-objects that have data. A value of the result is a JSON value or \<open>NOT_DOWNLOADED\<close>.
\<close>

definition to_struct :: "jira_issue \<Rightarrow> py_exception + (string \<times> json fetched) list" where
  "to_struct i =
     and_then (issue_key i) (\<lambda>key.
     and_then (get_field (issue_fields i) ''summary'') (\<lambda>summary.
     and_then (get_field (issue_fields i) ''description'') (\<lambda>description.
     and_then (get_field (issue_fields i) ''created'') (\<lambda>created.
     and_then (get_field (issue_fields i) ''labels'') (\<lambda>labels.
     and_then (get_value (issue_data i) ''updated'' JNull) (\<lambda>updated.
     and_then (get_field (issue_fields i) ''resolutiondate'') (\<lambda>resolutiondate.
     and_then
       (if have_data (parent_issue i)
        then and_then (issue_key (obj (parent_issue i))) (\<lambda>k. Inr [(''parent'', Fetched k)])
        else Inr []) (\<lambda>parent_entry.
     and_then
       (if have_data (resolution_object i)
        then and_then (JiraResolution_to_struct (obj (resolution_object i)))
               (\<lambda>r. Inr [(''resolution'', Fetched r)])
        else Inr []) (\<lambda>resolution_entry.
     and_then
       (if have_data (comments i)
        then and_then (JiraCommentList_to_struct (obj (comments i)))
               (\<lambda>c. Inr [(''comments'', Fetched c)])
        else Inr []) (\<lambda>comments_entry.
       Inr ([(''type'', Fetched (JStr ''JiraIssue'')),
             (''key'', Fetched key),
             (''summary'', summary),
             (''description'', description),
             (''created'', created),
             (''labels'', labels),
             (''updated'', Fetched updated),
             (''resolutiondate'', resolutiondate)]
            @ parent_entry @ resolution_entry @ comments_entry)))))))))))"

text \<open>What \<open>str.format\<close> inserts for a field value: \<open>str\<close> of it.\<close>

fun format_field :: "json fetched \<Rightarrow> string" where
  "format_field NOT_DOWNLOADED = ''<not downloaded>''"
| "format_field (Fetched v) = py_str v"

text \<open>
  The replacement field \<open>{issuetype.name}\<close>: the attribute \<open>name\<close> of the argument, which
  the \<open>NOT_DOWNLOADED\<close> instance does not have.
\<close>

fun name_attribute :: "json fetched \<Rightarrow> py_exception + json" where
  "name_attribute NOT_DOWNLOADED = Inl AttributeError"
| "name_attribute (Fetched data) = get_value data ''name'' JNull"

definition join_labels :: "json fetched \<Rightarrow> py_exception + string" where
  "join_labels labels =
     (case labels of
        NOT_DOWNLOADED \<Rightarrow> Inl TypeError
      | Fetched v \<Rightarrow> and_then (py_iter v) (py_join '', ''))"

text \<open>
  \<open>to_text\<close>: the subtask keys, then the arguments of \<open>format\<close> in their order, then the
  attribute lookups that \<open>format\<close> makes itself.
\<close>

definition to_text :: "jira_issue \<Rightarrow> py_exception + string" where
  "to_text i =
     and_then
       (if subtasks i \<noteq> []
        then and_then (try_map issue_key (subtasks i)) (py_join '', '')
        else Inr ''none'') (\<lambda>subtasks_text.
     and_then (issue_key i) (\<lambda>key.
     and_then
       (if have_data (reporter i) then display_name (obj (reporter i))
        else Inr (JStr ''Unknown'')) (\<lambda>reporter_text.
     and_then
       (if have_data (assignee i) then display_name (obj (assignee i))
        else Inr (JStr ''Unknown'')) (\<lambda>assignee_text.
     and_then
       (if have_data (resolution_object i)
        then get_value (obj (resolution_object i)) ''name'' JNull
        else Inr (JStr ''Unresolved'')) (\<lambda>resolution_text.
     and_then (get_field (issue_fields i) ''summary'') (\<lambda>summary.
     and_then (get_field (issue_fields i) ''description'') (\<lambda>description.
     and_then (and_then (get_field (issue_fields i) ''labels'') join_labels) (\<lambda>labels_text.
     and_then (get_field (issue_fields i) ''created'') (\<lambda>created.
     and_then (get_value (issue_data i) ''updated'' JNull) (\<lambda>updated.
     and_then
       (case comments i of
          NOT_DOWNLOADED \<Rightarrow> Inr ''<not downloaded>''
        | Fetched cl \<Rightarrow> JiraCommentList_to_text cl) (\<lambda>comments_text.
     and_then (name_attribute (issuetype i)) (\<lambda>issuetype_name.
     and_then (name_attribute (case status i of NOT_DOWNLOADED \<Rightarrow> NOT_DOWNLOADED
                               | Fetched st \<Rightarrow> Fetched (status_data st))) (\<lambda>status_name.
     and_then (name_attribute (priority i)) (\<lambda>priority_name.
       Inr (''Issue: '' @ py_str key @ [CHR 0x0A] @
            ''Type: '' @ py_str issuetype_name @ [CHR 0x0A] @
            ''Status: '' @ py_str status_name @ [CHR 0x0A] @
            ''Priority: '' @ py_str priority_name @ [CHR 0x0A] @
            ''Reporter: '' @ py_str reporter_text @ [CHR 0x0A] @
            ''Assignee: '' @ py_str assignee_text @ [CHR 0x0A] @
            ''Resolution: '' @ py_str resolution_text @ [CHR 0x0A] @
            ''Subtasks: '' @ subtasks_text @ [CHR 0x0A] @
            ''Summary: '' @ format_field summary @ [CHR 0x0A] @
            ''Description:'' @ [CHR 0x0A, CHR 0x0A] @
            format_field description @ [CHR 0x0A] @
            ''---'' @ [CHR 0x0A] @
            ''Labels: '' @ labels_text @ [CHR 0x0A] @
            ''Created: '' @ format_field created @ [CHR 0x0A] @
            ''Updated: '' @ py_str updated @ [CHR 0x0A] @
            ''Comments:'' @ [CHR 0x0A, CHR 0x0A] @
            comments_text)))))))))))))))"

text \<open>An issue record with the fields that the text form needs, and some more.\<close>

definition example_fields :: "(string \<times> json) list" where
  "example_fields =
     [(''summary'', JStr ''Crash on start''),
      (''description'', JStr ''It crashes.''),
      (''created'', JStr ''2024-01-02''),
      (''labels'', JList [JStr ''bug'']),
      (''issuetype'', JDict [(''name'', JStr ''Bug'')]),
      (''status'', JDict [(''name'', JStr ''Open'')]),
      (''priority'', JDict [(''name'', JStr ''High'')]),
      (''comment'', JDict [(''comments'', JList []), (''total'', JInt 0)])]"

definition example_issue :: "(string \<times> json) list \<Rightarrow> json" where
  "example_issue flds = JDict [(''key'', JStr ''X-1''), (''fields'', JDict flds)]"

text \<open>
  What \<open>main\<close> does with a record of the service: \<open>JiraIssue(issue_dict)\<close>, then
  \<open>issue.to_text()\<close>, for the text format.
\<close>

definition issue_text :: "json \<Rightarrow> py_exception + string" where
  "issue_text issue_dict = and_then (new_JiraIssue issue_dict) to_text"

text \<open>The text form of that record, and the record as \<open>JiraIssue\<close> holds it.\<close>

definition example_text :: string where
  "example_text =
     str_join [CHR 0x0A]
       [''Issue: X-1'', ''Type: Bug'', ''Status: Open'', ''Priority: High'',
        ''Reporter: Unknown'', ''Assignee: Unknown'', ''Resolution: Unresolved'',
        ''Subtasks: none'', ''Summary: Crash on start'', ''Description:'', '''',
        ''It crashes.'', ''---'', ''Labels: bug'', ''Created: 2024-01-02'', ''Updated: None'',
        ''Comments:'', '''', '''']"


definition example_fields_without :: "string \<Rightarrow> (string \<times> json) list" where
  "example_fields_without k = filter (\<lambda>kv. fst kv \<noteq> k) example_fields"

definition example_text_without_description :: string where
  "example_text_without_description =
     str_join [CHR 0x0A]
       [''Issue: X-1'', ''Type: Bug'', ''Status: Open'', ''Priority: High'',
        ''Reporter: Unknown'', ''Assignee: Unknown'', ''Resolution: Unresolved'',
        ''Subtasks: none'', ''Summary: Crash on start'', ''Description:'', [],
        ''<not downloaded>'', ''---'', ''Labels: bug'', ''Created: 2024-01-02'',
        ''Updated: None'', ''Comments:'', [], []]"

section \<open>Properties of the label computation\<close>

lemma count_list_remove1:
  "count_list (remove1 x xs) y = (if x = y then count_list xs y - 1 else count_list xs y)"
  by (induction xs) auto

lemma in_set_count_list: "x \<in> set xs \<longleftrightarrow> 0 < count_list xs x"
  using count_list_0_iff [of xs x] by auto

lemma count_list_distinct:
  "distinct xs \<Longrightarrow> count_list xs x = (if x \<in> set xs then 1 else 0)"
  by (induction xs) auto

lemma count_list_map_JStr [simp]: "count_list (map JStr xs) (JStr l) = count_list xs l"
  by (induction xs) auto

lemma the_strings_JStr [simp]: "the_strings (map JStr ss) = Inr ss"
  by (induction ss) auto

lemma hashable_JStr [simp]: "list_all hashable (map JStr ss)"
  by (induction ss) auto

lemma add_loop_new_labels:
  "new_labels (add_loop k S add v) = new_labels v @ map JStr (filter (\<lambda>l. JStr l \<notin> S) add)"
  by (induction add arbitrary: v) auto

lemma add_loop_update_labels:
  "update_labels (add_loop k S add v) = (update_labels v \<or> (\<exists>l \<in> set add. JStr l \<notin> S))"
  by (induction add arbitrary: v) auto

text \<open>
  How often a label stands in the list after the remove loop: each occurrence of the label in
  the remove list takes one occurrence away, as long as one is left, and only for a label of
  the original label set.
\<close>

lemma remove_loop_count_str:
  "count_list (new_labels (remove_loop k S rem v)) (JStr l) =
     (if JStr l \<in> S then count_list (new_labels v) (JStr l) - count_list rem l
      else count_list (new_labels v) (JStr l))"
proof (induction rem arbitrary: v)
  case Nil
  then show ?case by simp
next
  case (Cons r rem)
  show ?case
    using in_set_count_list [of "JStr r" "new_labels v"]
    by (simp add: Cons.IH count_list_remove1)
qed

lemma remove_loop_update_labels:
  "update_labels (remove_loop k S rem v) =
     (update_labels v \<or> (\<exists>l \<in> set rem. JStr l \<in> S \<and> JStr l \<in> set (new_labels v)))"
proof (induction rem arbitrary: v)
  case Nil
  then show ?case by simp
next
  case (Cons r rem)
  show ?case
    by (auto simp: Cons.IH dest: notin_set_remove1)
qed

lemma count_after_add:
  "count_list (new_labels (add_loop k (set old) add
       \<lparr>new_labels = old, update_labels = u, printed = p\<rparr>)) (JStr l)
    = (if JStr l \<in> set old then count_list old (JStr l) else count_list add l)"
proof -
  have "count_list (map JStr (filter (\<lambda>l. JStr l \<notin> set old) add)) (JStr l)
      = (if JStr l \<in> set old then 0 else count_list add l)"
    by (induction add) auto
  then show ?thesis
    using count_list_0_iff [of old "JStr l"] by (auto simp add: add_loop_new_labels)
qed

lemma count_edit_labels:
  "count_list (new_labels (edit_labels k old add rem)) (JStr l) =
     (if JStr l \<in> set old then count_list old (JStr l) - count_list rem l else count_list add l)"
  by (simp add: edit_labels_def remove_loop_count_str count_after_add)

lemma remove_loop_strings:
  "\<exists>ss. new_labels v = map JStr ss \<Longrightarrow> \<exists>ss. new_labels (remove_loop k S rem v) = map JStr ss"
proof (induction rem arbitrary: v)
  case Nil
  then show ?case by simp
next
  case (Cons r rem)
  from Cons.prems obtain ss where ss: "new_labels v = map JStr ss" by blast
  have "remove1 (JStr r) (map JStr ss) = map JStr (remove1 r ss)"
    by (induction ss) auto
  with ss show ?case
    by (auto intro!: Cons.IH)
qed

lemma edit_labels_strings:
  "\<exists>ss. new_labels (edit_labels k (map JStr labels) add rem) = map JStr ss"
  unfolding edit_labels_def
  by (rule remove_loop_strings) (metis add_loop_new_labels map_append label_vars.select_convs(1))

text \<open>
  When the update flag is set, the new list is not the old one; the label sets differ as well
  when the old list repeats no label.
\<close>

lemma update_labels_changes:
  assumes "update_labels (edit_labels k old add rem)"
  shows "new_labels (edit_labels k old add rem) \<noteq> old"
    and "distinct old \<Longrightarrow> set (new_labels (edit_labels k old add rem)) \<noteq> set old"
proof -
  let ?new = "new_labels (edit_labels k old add rem)"
  from assms consider
      (added) l where "l \<in> set add" "JStr l \<notin> set old"
    | (removed) l where "l \<in> set rem" "JStr l \<in> set old"
    by (auto simp: edit_labels_def remove_loop_update_labels add_loop_update_labels)
  then have "(\<exists>x. count_list ?new x \<noteq> count_list old x) \<and> (distinct old \<longrightarrow> set ?new \<noteq> set old)"
  proof cases
    case added
    then have "0 < count_list ?new (JStr l)"
      by (simp add: count_edit_labels in_set_count_list [symmetric])
    then have "JStr l \<in> set ?new"
      by (simp add: in_set_count_list)
    with added show ?thesis
      by (metis count_list_0_iff)
  next
    case removed
    then have c: "0 < count_list old (JStr l)" "0 < count_list rem l"
      by (simp_all add: in_set_count_list [symmetric])
    have n: "count_list ?new (JStr l) = count_list old (JStr l) - count_list rem l"
      using removed by (simp add: count_edit_labels)
    have "count_list ?new (JStr l) \<noteq> count_list old (JStr l)"
      using c n by arith
    moreover have "set ?new \<noteq> set old" if "distinct old"
    proof -
      from that removed have "count_list old (JStr l) = 1"
        by (simp add: count_list_distinct)
      with n c have "count_list ?new (JStr l) = 0" by simp
      then have "JStr l \<notin> set ?new" by (simp add: count_list_0_iff)
      with removed show ?thesis by auto
    qed
    ultimately show ?thesis by blast
  qed
  then show "?new \<noteq> old" and "distinct old \<Longrightarrow> set ?new \<noteq> set old"
    by auto
qed

lemma add_loop_noop: "\<forall>l \<in> set add. JStr l \<in> S \<Longrightarrow> add_loop k S add v = v"
  by (induction add arbitrary: v) auto

lemma remove_loop_noop:
  "\<forall>l \<in> set rem. \<not> (JStr l \<in> S \<and> JStr l \<in> set (new_labels v)) \<Longrightarrow> remove_loop k S rem v = v"
  by (induction rem arbitrary: v) auto

lemma edit_labels_idem:
  assumes d: "distinct old" and disj: "set add \<inter> set rem = {}"
  shows "edit_labels k' (new_labels (edit_labels k old add rem)) add rem =
           \<lparr>new_labels = new_labels (edit_labels k old add rem), update_labels = False, printed = []\<rparr>"
proof -
  let ?new = "new_labels (edit_labels k old add rem)"
  have a: "JStr l \<in> set ?new" if "l \<in> set add" for l
  proof -
    from that disj have "count_list rem l = 0" by (auto simp: count_list_0_iff)
    moreover from that have "0 < count_list add l" by (simp add: in_set_count_list [symmetric])
    ultimately have "0 < count_list ?new (JStr l)"
      by (auto simp add: count_edit_labels in_set_count_list [symmetric])
    then show ?thesis by (simp add: in_set_count_list)
  qed
  have r: "JStr l \<notin> set ?new" if "l \<in> set rem" for l
  proof -
    from that disj have "count_list add l = 0" by (auto simp: count_list_0_iff)
    moreover from that have "0 < count_list rem l" by (simp add: in_set_count_list [symmetric])
    moreover have "count_list old (JStr l) \<le> 1"
      using d by (simp add: count_list_distinct)
    ultimately have "count_list ?new (JStr l) = 0"
      by (auto simp add: count_edit_labels)
    then show ?thesis by (simp add: count_list_0_iff)
  qed
  show ?thesis
    unfolding edit_labels_def [of k' ?new]
    using a r by (simp add: add_loop_noop remove_loop_noop)
qed

text \<open>The loops print and never call the service.\<close>

lemma printed_no_update_call:
  "filter is_update_call (printed (edit_labels k old add rem)) = []"
proof -
  have p: "filter is_update_call (printed (add_loop k S add v)) = filter is_update_call (printed v)"
    for S v by (induction add arbitrary: v) auto
  have q: "filter is_update_call (printed (remove_loop k S rem v)) = filter is_update_call (printed v)"
    for S v by (induction rem arbitrary: v) auto
  show ?thesis by (simp add: edit_labels_def p q)
qed

text \<open>One step of the loop on an issue whose labels are strings, written out.\<close>

lemma label_issue_labels:
  "label_issue dry_run add rem jira (issue_with_labels k (map JStr labels)) s =
     (let v = edit_labels k (map JStr labels) add rem;
          c1 = (snd s)\<lparr>num_issues := num_issues (snd s) + 1\<rparr>;
          c2 = c1\<lparr>num_updated_issues := num_updated_issues c1 + 1\<rparr>;
          joined = str_join '', '' (map py_str (new_labels v))
      in if \<not> update_labels v then Continue (fst s @ printed v, c1)
         else if dry_run then
           Continue (fst s @ printed v @
             [Stdout (''DRY RUN: I would update issue '' @ py_str k @ '' with labels: '' @ joined)], c2)
         else
           (case update_resp jira (fst s @ printed v @
                   [Stdout (''Update issue '' @ py_str k @ '' with labels: '' @ joined)]) k (new_labels v) of
              None \<Rightarrow> Continue
           | Some e \<Rightarrow> Abort (Uncaught e))
             (fst s @ printed v @
               [Stdout (''Update issue '' @ py_str k @ '' with labels: '' @ joined),
                Jira_update_issue_field k (new_labels v)], c2))"
proof -
  obtain ss where ss: "new_labels (edit_labels k (map JStr labels) add rem) = map JStr ss"
    using edit_labels_strings by blast
  have [simp]: "map (py_str \<circ> JStr) ss = ss" by (induction ss) auto
  show ?thesis
    by (simp add: label_issue_def issue_with_labels_def attempt_def py_get_def py_set_def
        py_join_def emit_def ss Let_def split: option.splits)
qed

lemma dry_run_no_update:
  "filter is_update_call (fst (state_of (label_issue True add rem jira issue s))) =
     filter is_update_call (fst s)"
  by (auto simp add: label_issue_def attempt_def emit_def Let_def printed_no_update_call
      split: sum.splits)

lemma distinct_map_JStr [simp]: "distinct (map JStr xs) = distinct xs"
  by (simp add: distinct_map inj_on_def)

text \<open>
  Claim C1, as the code has it. For a label \<open>L\<close> that stands in both the add list and the
  remove list, the computed list holds \<open>L\<close> exactly when \<open>L\<close> is not in the initial list (the
  add loop appends it, and the remove loop only touches labels of the original label set) or
  when the initial list holds \<open>L\<close> more often than the remove list does (each entry of the
  remove list deletes one occurrence). So remove wins for a label of the initial list that is
  not repeated there, and add wins for a label that the initial list does not have.
\<close>

theorem label_in_add_and_remove:
  "L \<in> set add_labels \<Longrightarrow> L \<in> set remove_labels \<Longrightarrow>
   (JStr L \<in> set (new_labels (edit_labels k (map JStr labels) add_labels remove_labels)) \<longleftrightarrow>
      L \<notin> set labels \<or> count_list remove_labels L < count_list labels L)"
  unfolding in_set_count_list count_edit_labels
  by (auto simp: in_set_count_list)

text \<open>The statement at a label of the initial list: it is removed.\<close>

theorem label_in_add_and_remove_witness:
  "''x'' \<in> set [''x''] \<and> ''x'' \<in> set [''x'', ''y''] \<and>
   JStr ''x'' \<notin> set (new_labels (edit_labels (JStr ''K-1'') (map JStr [''x'', ''z'']) [''x''] [''x'', ''y'']))"
  using label_in_add_and_remove [of "''x''" "[''x'']" "[''x'', ''y'']" "JStr ''K-1''" "[''x'', ''z'']"]
  by simp

text \<open>
  Claim C1 as stated fails: with no initial labels, a label in both lists stays in the computed
  list; so does a label that the initial list holds twice.
\<close>

theorem remove_wins_counterexample:
  "''x'' \<in> set [''x''] \<and>
   JStr ''x'' \<in> set (new_labels (edit_labels (JStr ''K-1'') [] [''x''] [''x''])) \<and>
   JStr ''x'' \<in> set (new_labels (edit_labels (JStr ''K-1'') [JStr ''x'', JStr ''x''] [''x''] [''x'']))"
  by (simp add: edit_labels_def)

text \<open>
  Claim C3, as the code has it. When the initial label list repeats no label and no label is in
  both the add list and the remove list, the computation is idempotent: computing again from
  the computed list gives the same list, sets no update flag, and the step of the loop on the
  already updated issue prints nothing and calls nothing, in both modes.
\<close>

theorem second_run_changes_nothing:
  assumes "distinct labels" and "set add_labels \<inter> set remove_labels = {}"
  shows "new_labels (edit_labels k (new_labels (edit_labels k (map JStr labels) add_labels remove_labels))
             add_labels remove_labels)
           = new_labels (edit_labels k (map JStr labels) add_labels remove_labels) \<and>
         \<not> update_labels (edit_labels k (new_labels (edit_labels k (map JStr labels) add_labels remove_labels))
             add_labels remove_labels) \<and>
         label_issue dry_run add_labels remove_labels jira
             (issue_with_labels k (new_labels (edit_labels k (map JStr labels) add_labels remove_labels))) s
           = Continue (fst s, (snd s)\<lparr>num_issues := num_issues (snd s) + 1\<rparr>)"
proof -
  let ?new = "new_labels (edit_labels k (map JStr labels) add_labels remove_labels)"
  have "distinct (map JStr labels)"
    using assms(1) by simp
  then have idem: "edit_labels k ?new add_labels remove_labels =
      \<lparr>new_labels = ?new, update_labels = False, printed = []\<rparr>"
    using assms(2) by (rule edit_labels_idem)
  obtain ss where ss: "?new = map JStr ss"
    using edit_labels_strings by blast
  have "label_issue dry_run add_labels remove_labels jira (issue_with_labels k (map JStr ss)) s
      = Continue (fst s, (snd s)\<lparr>num_issues := num_issues (snd s) + 1\<rparr>)"
    using idem unfolding ss by (simp add: label_issue_labels Let_def)
  with idem ss show ?thesis by simp
qed

text \<open>The statement at labels a, b with c added and a removed.\<close>

theorem second_run_changes_nothing_witness:
  "distinct [''a'', ''b''] \<and> set [''c''] \<inter> set [''a''] = {} \<and>
   new_labels (edit_labels (JStr ''K-1'') [JStr ''b'', JStr ''c''] [''c''] [''a'']) = [JStr ''b'', JStr ''c''] \<and>
   label_issue False [''c''] [''a''] accepting_server
       (issue_with_labels (JStr ''K-1'') [JStr ''b'', JStr ''c''])
       ([], \<lparr>num_issues = 1, num_updated_issues = 1\<rparr>)
     = Continue ([], \<lparr>num_issues = 2, num_updated_issues = 1\<rparr>)"
proof -
  have n: "new_labels (edit_labels (JStr ''K-1'') (map JStr [''a'', ''b'']) [''c''] [''a''])
             = [JStr ''b'', JStr ''c'']"
    by (simp add: edit_labels_def)
  show ?thesis
    using second_run_changes_nothing [of "[''a'', ''b'']" "[''c'']" "[''a'']" "JStr ''K-1''"
        False accepting_server "([], \<lparr>num_issues = 1, num_updated_issues = 1\<rparr>)"]
    unfolding n by simp
qed

text \<open>
  Claim C3 as stated fails. With no initial labels and one label in both lists, the first run
  adds the label and the second run removes it again, with an update call; with a label held
  twice, each run removes one occurrence.
\<close>

theorem idempotent_counterexample:
  "new_labels (edit_labels (JStr ''K-1'') (new_labels (edit_labels (JStr ''K-1'') [] [''x''] [''x'']))
       [''x''] [''x''])
     \<noteq> new_labels (edit_labels (JStr ''K-1'') [] [''x''] [''x'']) \<and>
   filter is_update_call (fst (state_of (label_issue False [''x''] [''x''] accepting_server
       (issue_with_labels (JStr ''K-1'') (new_labels (edit_labels (JStr ''K-1'') [] [''x''] [''x''])))
       ([], \<lparr>num_issues = 0, num_updated_issues = 0\<rparr>))))
     = [Jira_update_issue_field (JStr ''K-1'') []] \<and>
   new_labels (edit_labels (JStr ''K-1'')
       (new_labels (edit_labels (JStr ''K-1'') [JStr ''x'', JStr ''x''] [] [''x''])) [] [''x''])
     \<noteq> new_labels (edit_labels (JStr ''K-1'') [JStr ''x'', JStr ''x''] [] [''x''])"
  by (simp add: edit_labels_def label_issue_def issue_with_labels_def attempt_def py_get_def
      py_set_def py_join_def emit_def accepting_server_def)

text \<open>
  Claim C5, as the code has it. When the step of the loop issues an update call for an issue,
  the computed label list differs from the original list; when the original list repeats no
  label, the set of labels differs as well.
\<close>

theorem update_only_if_list_changed:
  assumes "filter is_update_call (fst (state_of
              (label_issue dry_run add_labels remove_labels jira
                 (issue_with_labels k (map JStr labels)) s)))
           \<noteq> filter is_update_call (fst s)"
  shows "new_labels (edit_labels k (map JStr labels) add_labels remove_labels) \<noteq> map JStr labels \<and>
         (distinct labels \<longrightarrow>
            set (new_labels (edit_labels k (map JStr labels) add_labels remove_labels))
              \<noteq> set (map JStr labels))"
proof -
  have "update_labels (edit_labels k (map JStr labels) add_labels remove_labels)"
  proof (rule ccontr)
    assume "\<not> ?thesis"
    with assms show False
      by (simp add: label_issue_labels Let_def printed_no_update_call)
  qed
  then show ?thesis
    using update_labels_changes [of k "map JStr labels" add_labels remove_labels]
    by simp
qed

text \<open>The statement at labels a, b with c added and a removed, where the call is issued.\<close>

theorem update_only_if_list_changed_witness:
  "filter is_update_call (fst (state_of
       (label_issue False [''c''] [''a''] accepting_server
          (issue_with_labels (JStr ''K-1'') (map JStr [''a'', ''b'']))
          ([], \<lparr>num_issues = 0, num_updated_issues = 0\<rparr>))))
     \<noteq> filter is_update_call [] \<and>
   distinct [''a'', ''b''] \<and>
   set (new_labels (edit_labels (JStr ''K-1'') (map JStr [''a'', ''b'']) [''c''] [''a'']))
     \<noteq> set (map JStr [''a'', ''b''])"
proof -
  have h: "filter is_update_call (fst (state_of
       (label_issue False [''c''] [''a''] accepting_server
          (issue_with_labels (JStr ''K-1'') (map JStr [''a'', ''b'']))
          ([], \<lparr>num_issues = 0, num_updated_issues = 0\<rparr>))))
     \<noteq> filter is_update_call (fst ([], \<lparr>num_issues = 0, num_updated_issues = 0\<rparr>))"
    by (simp add: edit_labels_def label_issue_def issue_with_labels_def attempt_def py_get_def
      py_set_def py_join_def emit_def accepting_server_def)
  show ?thesis
    using h update_only_if_list_changed [OF h] by simp
qed

text \<open>
  Claim C5 as stated fails for an original list with a duplicate: removing one of two equal
  labels issues the update call although the set of labels is the same.
\<close>

theorem update_with_same_label_set_counterexample:
  "filter is_update_call (fst (state_of
       (label_issue False [] [''x''] accepting_server
          (issue_with_labels (JStr ''K-1'') [JStr ''x'', JStr ''x''])
          ([], \<lparr>num_issues = 0, num_updated_issues = 0\<rparr>))))
     = [Jira_update_issue_field (JStr ''K-1'') [JStr ''x'']] \<and>
   set (new_labels (edit_labels (JStr ''K-1'') [JStr ''x'', JStr ''x''] [] [''x'']))
     = set [JStr ''x'', JStr ''x'']"
  by (simp add: edit_labels_def label_issue_def issue_with_labels_def attempt_def py_get_def
      py_set_def py_join_def emit_def accepting_server_def)

text \<open>
  Claim C6. For labels a, b with c added and a removed the computed list is b, c; in dry-run mode
  the step prints the two changes and the line with the intended update and calls nothing. In
  general a dry-run step adds no update call to the trace, whatever the issue record is, and
  on an issue whose labels are strings it runs the same label computation as a real run,
  prints its lines and, when the update flag is set, the line with the intended labels.
\<close>

theorem dry_run_computes_and_never_writes:
  "new_labels (edit_labels k [JStr ''a'', JStr ''b''] [''c''] [''a'']) = [JStr ''b'', JStr ''c''] \<and>
   label_issue True [''c''] [''a''] jira (issue_with_labels (JStr ''K-1'') [JStr ''a'', JStr ''b''])
       ([], \<lparr>num_issues = 0, num_updated_issues = 0\<rparr>)
     = Continue ([Stdout ''Add label 'c' to the issue K-1'',
                  Stdout ''Remove label 'a' from the issue K-1'',
                  Stdout ''DRY RUN: I would update issue K-1 with labels: b, c''],
                 \<lparr>num_issues = 1, num_updated_issues = 1\<rparr>) \<and>
   filter is_update_call (fst (state_of (label_issue True add_labels remove_labels jira issue s)))
     = filter is_update_call (fst s) \<and>
   label_issue True add_labels remove_labels jira (issue_with_labels key (map JStr labels)) s
     = Continue
        (fst s @ printed (edit_labels key (map JStr labels) add_labels remove_labels) @
           (if update_labels (edit_labels key (map JStr labels) add_labels remove_labels)
            then [Stdout (''DRY RUN: I would update issue '' @ py_str key @ '' with labels: '' @
                    str_join '', '' (map py_str
                      (new_labels (edit_labels key (map JStr labels) add_labels remove_labels))))]
            else []),
         (snd s)\<lparr>num_issues := num_issues (snd s) + 1,
                  num_updated_issues := num_updated_issues (snd s) +
                    (if update_labels (edit_labels key (map JStr labels) add_labels remove_labels)
                     then 1 else 0)\<rparr>)"
proof -
  have a: "new_labels (edit_labels k [JStr ''a'', JStr ''b''] [''c''] [''a'']) = [JStr ''b'', JStr ''c'']"
    by (simp add: edit_labels_def)
  have b: "label_issue True [''c''] [''a''] jira (issue_with_labels (JStr ''K-1'') [JStr ''a'', JStr ''b''])
       ([], \<lparr>num_issues = 0, num_updated_issues = 0\<rparr>)
     = Continue ([Stdout ''Add label 'c' to the issue K-1'',
                  Stdout ''Remove label 'a' from the issue K-1'',
                  Stdout ''DRY RUN: I would update issue K-1 with labels: b, c''],
                 \<lparr>num_issues = 1, num_updated_issues = 1\<rparr>)"
    by (simp add: edit_labels_def label_issue_def issue_with_labels_def attempt_def py_get_def
      py_set_def py_join_def emit_def str_repr_def escape_char_def printable_def Let_def)
  show ?thesis
    unfolding a b
    by (simp add: dry_run_no_update label_issue_labels Let_def)
qed

section \<open>Properties of the paginated fetch\<close>

lemma for_each_collect: "for_each collect xs s = Continue (fst s, snd s @ xs)"
  by (induction xs arbitrary: s) (auto simp: collect_def)

lemma loop_step:
  assumes "jql_resp jira (fst s) jql start 200 flds =
             Inr (JDict [(''total'', t), (''issues'', JList items)])"
  shows "jira_get_issues_loop jira jql flds body start total0 s =
     (if items = [] then Some (Continue (emit (Jira_jql jql start 200 flds) s))
      else (case for_each body items (emit (Jira_jql jql start 200 flds) s) of
              Abort e s2 \<Rightarrow> Some (Abort e s2)
            | Continue s2 \<Rightarrow>
                jira_get_issues_loop jira jql flds body (start + length items)
                  (if total0 = JInt (- 1) then t else total0) s2))"
  by (subst jira_get_issues_loop.simps) (simp add: assms py_get_def Let_def)

lemma paged_server_resp:
  "jql_resp (paged_server records page_size) tr jql start 200 flds =
     Inr (JDict [(''total'', JInt (int (length records))),
                 (''issues'', JList (take (min 200 page_size) (drop start records)))])"
  by (simp add: paged_server_def)

lemma loop_paged:
  assumes p: "0 < page_size"
  shows "start \<le> length records \<Longrightarrow>
     jira_get_issues_loop (paged_server records page_size) jql flds collect start total0 (tr, acc) =
       Some (Continue
         (tr @ map (\<lambda>st. Jira_jql jql st 200 flds) (page_starts (min 200 page_size) (length records) start),
          acc @ drop start records))"
proof (induction "length records - start" arbitrary: start total0 tr acc rule: less_induct)
  case less
  define p where "p = min 200 page_size"
  define n where "n = length records"
  define items where "items = take p (drop start records)"
  have pp: "0 < p" using assms by (simp add: p_def)
  have step: "jira_get_issues_loop (paged_server records page_size) jql flds collect start total0
        (tr, acc) =
     (if items = [] then Some (Continue (emit (Jira_jql jql start 200 flds) (tr, acc)))
      else (case for_each collect items (emit (Jira_jql jql start 200 flds) (tr, acc)) of
              Abort e s2 \<Rightarrow> Some (Abort e s2)
            | Continue s2 \<Rightarrow>
                jira_get_issues_loop (paged_server records page_size) jql flds collect
                  (start + length items)
                  (if total0 = JInt (- 1) then JInt (int (length records)) else total0) s2))"
    by (rule loop_step) (simp add: paged_server_resp p_def items_def)
  show ?case
  proof (cases "start = n")
    case True
    then have "items = []" by (simp add: items_def n_def)
    moreover have "page_starts p n start = [start]"
      using True by (subst page_starts.simps) simp
    ultimately show ?thesis
      using True step by (simp add: emit_def n_def [symmetric] p_def [symmetric])
  next
    case False
    with less.prems have lt: "start < n" by (simp add: n_def)
    have len: "length items = min p (n - start)" by (simp add: items_def n_def)
    then have ne: "items \<noteq> []" using pp lt by auto
    have le: "start + length items \<le> length records"
      using lt len by (simp add: n_def)
    have dec: "length records - (start + length items) < length records - start"
      using lt len pp by (simp add: n_def)
    note IH = less.hyps [OF dec le, folded p_def n_def]
    have split: "items @ drop (start + length items) records = drop start records"
    proof -
      have a: "take p (drop start records) @ drop p (drop start records) = drop start records"
        by (rule append_take_drop_id)
      have "drop (start + length items) records = drop p (drop start records)"
        unfolding len by (cases "p \<le> n - start") (simp_all add: add.commute min_def n_def)
      with a show ?thesis by (simp only: items_def)
    qed
    have ps: "page_starts p n start = start # page_starts p n (start + length items)"
      using pp lt unfolding len by (subst page_starts.simps) simp
    show ?thesis
      using ne step split
      by (simp add: for_each_collect emit_def IH ps n_def [symmetric] p_def [symmetric])
  qed
qed

lemma length_page_starts:
  "0 < p \<Longrightarrow> start \<le> n \<Longrightarrow> length (page_starts p n start) = (n - start + p - 1) div p + 1"
proof (induction p n start rule: page_starts.induct)
  case (1 p n start)
  show ?case
  proof (cases "n \<le> start")
    case True
    with 1 show ?thesis by (subst page_starts.simps) simp
  next
    case False
    show ?thesis
    proof (cases "p \<le> n - start")
      case True
      define k where "k = n - (start + p) + p - 1"
      have "n - start + p - 1 = k + p"
        using True False 1(2) by (simp add: k_def)
      moreover have "(k + p) div p = k div p + 1"
        using 1(2) by (simp add: div_add_self2)
      ultimately have "(n - start + p - 1) div p = (n - (start + p) + p - 1) div p + 1"
        by (simp only: k_def)
      then show ?thesis
        using 1 False True by (subst page_starts.simps) (simp add: min_def)
    next
      case small: False
      then have "(n - start + p - 1) div p = 1"
        using False 1(2) by (simp add: div_nat_eqI)
      then show ?thesis
        using 1 False small by (subst page_starts.simps, subst page_starts.simps) (simp add: min_def)
    qed
  qed
qed

lemma page_starts_401: "page_starts 200 401 0 = [0, 200, 400, 401]"
  by (simp add: page_starts.simps)

lemma length_issues_401: "length issues_401 = 401"
  by (simp add: issues_401_def)

text \<open>
  Claim C4, as the code has it. Against a service that holds the records in a fixed order and
  serves pages of a positive size, the iterator of either tool ends and yields exactly the
  records, each once and in order. The requests start at the offsets of the pages, each
  where the page before ended, and the last request is the one answered by an empty page:
  with page size \<open>p\<close> (at most 200) and \<open>N\<close> records there are \<open>(N + p - 1) div p + 1\<close>
  requests, and for 401 records in pages of 200 they are the four at 0, 200, 400 and 401.
\<close>

theorem pagination_yields_every_record_once:
  assumes "0 < page_size"
  shows "jira_get_issues (paged_server records page_size) jql collect ([], []) =
           Some (Continue
             (map (\<lambda>st. Jira_jql jql st 200 ''*all'')
                (page_starts (min 200 page_size) (length records) 0), records)) \<and>
         (jql \<noteq> [] \<longrightarrow>
            jira_get_issues_labels (paged_server records page_size) (Some jql) flds collect ([], []) =
              Some (Continue
                (map (\<lambda>st. Jira_jql jql st 200 flds)
                   (page_starts (min 200 page_size) (length records) 0), records))) \<and>
         length (page_starts (min 200 page_size) (length records) 0) =
           (length records + min 200 page_size - 1) div min 200 page_size + 1 \<and>
         page_starts 200 401 0 = [0, 200, 400, 401]"
proof -
  have "0 < min 200 page_size" using assms by simp
  then have "length (page_starts (min 200 page_size) (length records) 0) =
      (length records - 0 + min 200 page_size - 1) div min 200 page_size + 1"
    by (intro length_page_starts) simp_all
  then show ?thesis
    using loop_paged [OF assms, of 0 records _ _ _ "[]" "[]"]
    by (simp add: jira_get_issues_def jira_get_issues_labels_def page_starts_401)
qed

text \<open>The statement at 401 records in pages of 200: four requests, 401 records.\<close>

theorem pagination_yields_every_record_once_witness:
  "(0::nat) < 200 \<and> ''project = X'' \<noteq> [] \<and>
   jira_get_issues (paged_server issues_401 200) ''project = X'' collect ([], []) =
     Some (Continue
       ([Jira_jql ''project = X'' 0 200 ''*all'', Jira_jql ''project = X'' 200 200 ''*all'',
         Jira_jql ''project = X'' 400 200 ''*all'', Jira_jql ''project = X'' 401 200 ''*all''],
        issues_401)) \<and>
   jira_get_issues_labels (paged_server issues_401 200) (Some ''project = X'') ''labels'' collect ([], []) =
     Some (Continue
       ([Jira_jql ''project = X'' 0 200 ''labels'', Jira_jql ''project = X'' 200 200 ''labels'',
         Jira_jql ''project = X'' 400 200 ''labels'', Jira_jql ''project = X'' 401 200 ''labels''],
        issues_401))"
  using pagination_yields_every_record_once [of 200 issues_401 "''project = X''" "''labels''"]
  by (simp add: length_issues_401)

text \<open>
  Claim C4 as stated fails in its count of requests: for 401 records in pages of 200 the
  iterator makes four requests, not three, since only an empty page stops it.
\<close>

theorem three_requests_counterexample:
  "map_option (\<lambda>r. length (filter is_remote_call (fst (state_of r))))
     (jira_get_issues (paged_server issues_401 200) ''project = X'' collect ([], [])) = Some 4 \<and>
   map_option (\<lambda>r. length (filter is_remote_call (fst (state_of r))))
     (jira_get_issues (paged_server issues_401 200) ''project = X'' collect ([], [])) \<noteq> Some 3"
proof -
  have "jira_get_issues (paged_server issues_401 200) ''project = X'' collect ([], []) =
      Some (Continue
        (map (\<lambda>st. Jira_jql ''project = X'' st 200 ''*all'') [0, 200, 400, 401], issues_401))"
    using loop_paged [of 200 0 issues_401 "''project = X''" "''*all''" "JInt (- 1)" "[]" "[]"]
    by (simp add: jira_get_issues_def length_issues_401 page_starts_401)
  then show ?thesis by simp
qed

section \<open>Properties of the configuration handling and of main\<close>

lemma load_credentials_problem:
  assumes "config_problem env args"
  shows "\<exists>t s' errs. load_credentials env args s k = Some (Abort t s') \<and> exit_code t = 1 \<and>
       fst s' = fst s @ map Stderr errs \<and> (errs \<noteq> [] \<or> (\<exists>e. t = Uncaught e))"
proof (cases "isfile env (arg_config_file args)")
  case False
  then have "load_credentials env args s k = Some (Abort (SysExit 1)
      (fst s @ map Stderr [''Error: Configuration file '' @ arg_config_file args @ '' not found''], snd s))"
    by (simp add: load_credentials_def emit_def)
  then show ?thesis by (metis exit_code.simps(2) fst_conv not_Cons_self2)
next
  case there: True
  show ?thesis
  proof (cases "read_config env (arg_config_file args)")
    case (Inl e)
    with there have "load_credentials env args s k = Some (Abort (Uncaught e) (fst s @ map Stderr [], snd s))"
      by (simp add: load_credentials_def)
    then show ?thesis by (metis exit_code.simps(3) fst_conv)
  next
    case cfg: (Inr cfg)
    show ?thesis
    proof (cases "if given (arg_atlassian_domain args) then Inr (the (arg_atlassian_domain args))
               else cfg_get cfg ''DEFAULT'' ''domain''")
      case (Inl e)
      with there cfg have "load_credentials env args s k =
          Some (Abort (Uncaught e) (fst s @ map Stderr [], snd s))"
        by (simp add: load_credentials_def)
      then show ?thesis by (metis exit_code.simps(3) fst_conv)
    next
      case d: (Inr d)
      with assms there cfg have
        "cfg_get_fallback cfg d ''user'' = None \<or> cfg_get_fallback cfg d ''api_token'' = None"
        by (simp add: config_problem_def)
      with there cfg d have "\<exists>msg. load_credentials env args s k =
          Some (Abort (SysExit 1) (fst s @ map Stderr [msg], snd s))"
        by (cases "cfg_get_fallback cfg d ''user''") (auto simp add: load_credentials_def emit_def)
      then show ?thesis by (metis exit_code.simps(2) fst_conv not_Cons_self2)
    qed
  qed
qed

lemma load_credentials_ok:
  assumes "\<not> config_problem env args"
  shows "\<exists>cfg d u p. load_credentials env args s k = k cfg d u p"
proof -
  from assms have there: "isfile env (arg_config_file args)"
    by (auto simp: config_problem_def split: if_splits)
  from assms there obtain cfg where cfg: "read_config env (arg_config_file args) = Inr cfg"
    by (cases "read_config env (arg_config_file args)") (auto simp: config_problem_def)
  from assms there cfg obtain d where
    d: "(if given (arg_atlassian_domain args) then Inr (the (arg_atlassian_domain args))
               else cfg_get cfg ''DEFAULT'' ''domain'') = Inr d"
    by (cases "if given (arg_atlassian_domain args) then Inr (the (arg_atlassian_domain args))
               else cfg_get cfg ''DEFAULT'' ''domain''") (auto simp: config_problem_def)
  from assms there cfg d obtain u p where
    "cfg_get_fallback cfg d ''user'' = Some u" "cfg_get_fallback cfg d ''api_token'' = Some p"
    by (auto simp: config_problem_def)
  with there cfg d have "load_credentials env args s k = k cfg d u p"
    by (simp add: load_credentials_def)
  then show ?thesis by blast
qed

lemma config_problem_fails:
  assumes "config_problem env args"
  shows "fails_before_remote_call (map_option finish (load_credentials env args ([], v) k))"
proof -
  from load_credentials_problem [OF assms, of "([], v)" k]
  obtain t s' errs where r: "load_credentials env args ([], v) k = Some (Abort t s')"
    and t: "exit_code t = 1" and tr: "fst s' = map Stderr errs"
    and e: "errs \<noteq> [] \<or> (\<exists>e. t = Uncaught e)"
    by auto
  have nr: "\<not> list_ex is_remote_call (map Stderr errs)"
    by (induction errs) auto
  have st: "errs \<noteq> [] \<Longrightarrow> list_ex is_stderr (map Stderr errs)"
    by (cases errs) auto
  show ?thesis
    using t e nr st by (cases t) (auto simp: r tr fails_before_remote_call_def)
qed

lemma main_labels_no_labels:
  assumes "arg_add_labels largs = []" "arg_remove_labels largs = []"
  shows "fails_before_remote_call (main_labels env largs)"
proof (cases "config_problem env largs")
  case True
  then show ?thesis unfolding main_labels_def by (rule config_problem_fails)
next
  case False
  from load_credentials_ok [OF False] obtain cfg d u p where
    "main_labels env largs = map_option finish (main_labels_rest env largs cfg d u p)"
    unfolding main_labels_def by metis
  then show ?thesis
    by (simp add: main_labels_rest_def assms emit_def fails_before_remote_call_def)
qed

lemma main_labels_no_domain:
  assumes "arg_atlassian_domain largs = None"
  shows "fails_before_remote_call (main_labels env largs)"
proof (cases "config_problem env largs")
  case True
  then show ?thesis unfolding main_labels_def by (rule config_problem_fails)
next
  case False
  from load_credentials_ok [OF False] obtain cfg d u p where
    "main_labels env largs = map_option finish (main_labels_rest env largs cfg d u p)"
    unfolding main_labels_def by metis
  then show ?thesis
    by (simp add: main_labels_rest_def assms emit_def fails_before_remote_call_def Let_def)
qed

subsection \<open>Which events a loop can add to the trace\<close>

lemma for_each_keeps:
  assumes "\<And>x s. filter P (fst (state_of (body x s))) = filter P (fst s)"
  shows "filter P (fst (state_of (for_each body xs s))) = filter P (fst s)"
proof (induction xs arbitrary: s)
  case Nil
  then show ?case by simp
next
  case (Cons x xs)
  show ?case
  proof (cases "body x s")
    case (Continue s')
    with assms [of x s] Cons.IH [of s'] show ?thesis by simp
  next
    case (Abort t s')
    with assms [of x s] show ?thesis by simp
  qed
qed

lemma from_keys_keeps:
  assumes "\<And>x s. filter P (fst (state_of (body x s))) = filter P (fst s)"
    and "\<And>key f. \<not> P (Jira_issue key f)"
  shows "filter P (fst (state_of (jira_get_issues_from_keys jira ks flds body s))) = filter P (fst s)"
proof (induction ks arbitrary: s)
  case Nil
  then show ?case by simp
next
  case (Cons key ks)
  show ?case
  proof (cases "issue_resp jira (fst s) key flds")
    case (Inl e)
    then show ?thesis by (simp add: emit_def assms(2))
  next
    case (Inr issue_dict)
    show ?thesis
    proof (cases "body issue_dict (emit (Jira_issue key flds) s)")
      case (Continue s')
      with assms(1) [of issue_dict "emit (Jira_issue key flds) s"] Cons.IH [of s'] Inr
      show ?thesis by (simp add: emit_def assms(2))
    next
      case (Abort t s')
      with assms(1) [of issue_dict "emit (Jira_issue key flds) s"] Inr
      show ?thesis by (simp add: emit_def assms(2))
    qed
  qed
qed

lemma loop_keeps:
  assumes run: "jira_get_issues_loop jira jql flds body start total0 s = Some r"
    and body: "\<And>x s. filter P (fst (state_of (body x s))) = filter P (fst s)"
    and req: "\<And>q st l f. \<not> P (Jira_jql q st l f)"
  shows "filter P (fst (state_of r)) = filter P (fst s)"
proof -
  have "(\<forall>x s. filter P (fst (state_of (body x s))) = filter P (fst s)) \<longrightarrow>
      filter P (fst (state_of r)) = filter P (fst s)"
  proof (rule jira_get_issues_loop.raw_induct
      [where P = "\<lambda>jira jql flds body start total0 s r.
        (\<forall>x s. filter P (fst (state_of (body x s))) = filter P (fst s)) \<longrightarrow>
          filter P (fst (state_of r)) = filter P (fst s)", OF _ run])
    fix loop :: "jira_server \<Rightarrow> string \<Rightarrow> string \<Rightarrow> (json \<Rightarrow> 'a state \<Rightarrow> 'a state step) \<Rightarrow>
       nat \<Rightarrow> json \<Rightarrow> 'a state \<Rightarrow> 'a state step option"
    fix jira jql flds and body :: "json \<Rightarrow> 'a state \<Rightarrow> 'a state step"
    fix start total0 and s :: "'a state" and r
    assume hyp: "\<And>jira jql flds body start total0 s y.
        loop jira jql flds body start total0 s = Some y \<Longrightarrow>
        (\<forall>x s. filter P (fst (state_of (body x s))) = filter P (fst s)) \<longrightarrow>
          filter P (fst (state_of y)) = filter P (fst s)"
    assume unfolded: "(let s1 = emit (Jira_jql jql start 200 flds) s
      in case jql_resp jira (fst s) jql start 200 flds of
         Inl e \<Rightarrow> Some (Abort (Uncaught e) s1)
         | Inr data \<Rightarrow>
             case if total0 = JInt (- 1) then py_get data ''total'' JNull
                  else Inr total0 of
             Inl e \<Rightarrow> Some (Abort (Uncaught e) s1)
             | Inr total1 \<Rightarrow>
                 case py_get data ''issues'' JNull of
                 Inl e \<Rightarrow> Some (Abort (Uncaught e) s1)
                 | Inr issues \<Rightarrow>
                     case py_len issues of
                     Inl e \<Rightarrow> Some (Abort (Uncaught e) s1)
                     | Inr num \<Rightarrow>
                         if 0 < num
                         then case py_iter issues of
                              Inl e \<Rightarrow> Some (Abort (Uncaught e) s1)
                              | Inr items \<Rightarrow>
                                  case for_each body items s1 of
                                  Continue s2 \<Rightarrow>
                                    loop jira jql flds body (start + num) total1 s2
                                  | Abort t s2 \<Rightarrow> Some (Abort t s2)
                         else Some (Continue s1)) = Some r"
    show "(\<forall>x s. filter P (fst (state_of (body x s))) = filter P (fst s)) \<longrightarrow>
          filter P (fst (state_of r)) = filter P (fst s)"
    proof
      assume keeps: "\<forall>x s. filter P (fst (state_of (body x s))) = filter P (fst s)"
      define s1 where "s1 = emit (Jira_jql jql start 200 flds) s"
      have s1: "filter P (fst s1) = filter P (fst s)"
        by (simp add: s1_def emit_def req)
      have fe: "filter P (fst (state_of (for_each body items s1))) = filter P (fst s1)" for items
        using keeps by (intro for_each_keeps) blast
      have IH: "loop jira' jql' flds' body start' total' s' = Some y \<Longrightarrow>
          filter P (fst (state_of y)) = filter P (fst s')" for jira' jql' flds' start' total' s' y
        using hyp keeps by blast
      from unfolded consider (raised) t where "r = Abort t s1" | (empty) "r = Continue s1"
        | (aborted) items where "r = for_each body items s1"
        | (more) items s2 num total1 where "for_each body items s1 = Continue s2"
            "loop jira jql flds body (start + num) total1 s2 = Some r"
        by (auto simp: Let_def s1_def split: sum.splits if_splits step.splits)
      then show "filter P (fst (state_of r)) = filter P (fst s)"
      proof cases
        case raised
        then show ?thesis by (simp add: s1)
      next
        case empty
        then show ?thesis by (simp add: s1)
      next
        case aborted
        with fe [of items] show ?thesis by (simp add: s1)
      next
        case more
        with fe [of items] IH [OF more(2)] show ?thesis by (simp add: s1)
      qed
    qed
  qed
  with body show ?thesis by blast
qed

lemma label_issue_keeps:
  assumes "\<And>m. \<not> P (Stdout m)" and "\<And>k l. \<not> P (Jira_update_issue_field k l)"
  shows "filter P (fst (state_of (label_issue dry add rem jira issue s))) = filter P (fst s)"
proof -
  have p: "filter P (printed (add_loop k S add v)) = filter P (printed v)"
    for k S v by (induction add arbitrary: v) (auto simp: assms)
  have q: "filter P (printed (remove_loop k S rem v)) = filter P (printed v)"
    for k S v by (induction rem arbitrary: v) (auto simp: assms)
  show ?thesis
    by (auto simp add: label_issue_def attempt_def emit_def Let_def edit_labels_def p q assms
        split: sum.splits option.splits)
qed

lemma jira_get_issues_labels_keeps:
  assumes run: "jira_get_issues_labels jira jql flds body s = Some r"
    and body: "\<And>x s. filter P (fst (state_of (body x s))) = filter P (fst s)"
    and req: "\<And>q st l f. \<not> P (Jira_jql q st l f)"
  shows "filter P (fst (state_of r)) = filter P (fst s)"
proof (cases "given jql")
  case False
  with run have "r = Continue s"
    by (cases jql) (auto simp: jira_get_issues_labels_def)
  then show ?thesis by simp
next
  case True
  then obtain q where "jql = Some q" "q \<noteq> []" by (cases jql) auto
  with run have "jira_get_issues_loop jira q flds body 0 (JInt (- 1)) s = Some r"
    by (simp add: jira_get_issues_labels_def)
  then show ?thesis using body req by (rule loop_keeps)
qed

lemma main_labels_rest_connect:
  assumes "main_labels_rest env largs cfg d u p = Some r"
  shows "filter is_connect (fst (state_of r)) =
     (if (arg_add_labels largs = [] \<and> arg_remove_labels largs = []) then []
      else case arg_atlassian_domain largs of None \<Rightarrow> []
           | Some domain \<Rightarrow> [Jira_connect (''https://'' @ domain) u p])"
proof (cases "arg_add_labels largs = [] \<and> arg_remove_labels largs = []")
  case True
  with assms show ?thesis
    by (auto simp: main_labels_rest_def emit_def)
next
  case labels: False
  show ?thesis
  proof (cases "arg_atlassian_domain largs")
    case None
    with assms labels show ?thesis
      by (auto simp: main_labels_rest_def Let_def)
  next
    case (Some domain)
    define jira where "jira = connect env (''https://'' @ domain) u p"
    define body where "body = label_issue (arg_dry_run largs) (arg_add_labels largs)
                                 (arg_remove_labels largs) jira"
    define s0 :: "label_counts state" where "s0 = emit (Jira_connect (''https://'' @ domain) u p)
       (map Stdout
          [if given (arg_jql largs) then ''JQL: '' @ the (arg_jql largs)
           else ''No JQL specified'',
           if arg_keys largs \<noteq> [] then ''Jira keys: '' @ str_join '', '' (arg_keys largs)
           else ''No Jira keys specified'',
           if arg_add_labels largs \<noteq> []
           then ''Add labels: '' @ str_join '', '' (arg_add_labels largs)
           else ''There are no labels to add'',
           if arg_remove_labels largs \<noteq> []
           then ''Remove labels: '' @ str_join '', '' (arg_remove_labels largs)
           else ''There are no labels to remove''],
         \<lparr>num_issues = 0, num_updated_issues = 0\<rparr>)"
    have s0: "filter is_connect (fst s0) = [Jira_connect (''https://'' @ domain) u p]"
      by (simp add: s0_def emit_def)
    have keeps: "filter is_connect (fst (state_of (body x s))) = filter is_connect (fst s)" for x s
      unfolding body_def by (rule label_issue_keeps) simp_all
    have k: "filter is_connect (fst (state_of (jira_get_issues_from_keys jira (arg_keys largs)
        ''*all'' body s0))) = filter is_connect (fst s0)"
      by (rule from_keys_keeps) (simp_all add: keeps)
    have r:
      "(case jira_get_issues_from_keys jira (arg_keys largs) ''*all'' body s0 of
          Abort t s' \<Rightarrow> Some (Abort t s')
        | Continue s' \<Rightarrow>
            (case jira_get_issues_labels jira (arg_jql largs) ''labels'' body s' of
               None \<Rightarrow> None
             | Some (Abort t s'') \<Rightarrow> Some (Abort t s'')
             | Some (Continue s'') \<Rightarrow>
                 Some (Continue
                   (fst s'' @ map Stdout
                      [''Processed '' @ show_nat (num_issues (snd s'')) @ '' issue(s)'',
                       if \<not> arg_dry_run largs
                       then ''Updated '' @ show_nat (num_updated_issues (snd s'')) @
                              '' issue(s)''
                       else ''DRY RUN: I would have updated '' @
                              show_nat (num_updated_issues (snd s'')) @ '' issue(s)''],
                    snd s'')))) = Some r"
      using assms unfolding main_labels_rest_def Let_def jira_def body_def s0_def
      by (simp only: labels Some if_False option.case)
    have "filter is_connect (fst (state_of r)) = filter is_connect (fst s0)"
    proof (cases "jira_get_issues_from_keys jira (arg_keys largs) ''*all'' body s0")
      case (Abort t s')
      with r k show ?thesis by auto
    next
      case (Continue s')
      with k have s': "filter is_connect (fst s') = filter is_connect (fst s0)" by simp
      from r Continue obtain x where
        x: "jira_get_issues_labels jira (arg_jql largs) ''labels'' body s' = Some x"
        by (cases "jira_get_issues_labels jira (arg_jql largs) ''labels'' body s'") auto
      have "filter is_connect (fst (state_of x)) = filter is_connect (fst s')"
        using x keeps by (rule jira_get_issues_labels_keeps) simp
      with r Continue x s' show ?thesis
        by (cases x) auto
    qed
    with s0 labels Some show ?thesis by simp
  qed
qed

lemma connect_url_is_connect: "connect_url e = Some url \<Longrightarrow> is_connect e"
  by (cases e) auto

lemma main_labels_connect:
  assumes "main_labels env largs = Some r"
  shows "filter is_connect (fst r) = [] \<or>
     (\<exists>d u p. arg_atlassian_domain largs = Some d \<and>
        filter is_connect (fst r) = [Jira_connect (''https://'' @ d) u p])"
proof (cases "config_problem env largs")
  case True
  from load_credentials_problem [OF True, of "([], \<lparr>num_issues = 0, num_updated_issues = 0\<rparr>)"
      "main_labels_rest env largs"]
  obtain t s' errs where "main_labels env largs = Some (finish (Abort t s'))"
    "fst s' = map Stderr errs"
    by (auto simp: main_labels_def)
  moreover have "filter is_connect (map Stderr errs) = []"
    by (induction errs) auto
  ultimately show ?thesis using assms by auto
next
  case False
  from load_credentials_ok [OF False] obtain cfg d u p where
    "main_labels env largs = map_option finish (main_labels_rest env largs cfg d u p)"
    unfolding main_labels_def by metis
  with assms obtain x where x: "main_labels_rest env largs cfg d u p = Some x" "r = finish x"
    by auto
  have "fst (finish x) = fst (state_of x)" by (cases x) auto
  with main_labels_rest_connect [OF x(1)] x(2) show ?thesis
    by (auto split: option.splits if_splits)
qed

text \<open>
  Claim C9. When the configuration file is missing or cannot be parsed, or the domain (not
  given on the command line), the user or the token cannot be had from it, either tool ends
  with exit status 1 and a message on standard error and has sent no request; so does the
  label tool when neither labels to add nor labels to remove are given. The message is the
  tool's own for the missing file, user, token and labels; for a file that does not parse and
  for a missing domain it is the traceback of the parser's exception, which nothing catches.
\<close>

theorem config_errors_exit_1:
  "(config_problem env dargs \<longrightarrow> fails_before_remote_call (main_download env dargs output_issue)) \<and>
   (config_problem env largs \<longrightarrow> fails_before_remote_call (main_labels env largs)) \<and>
   (arg_add_labels largs = [] \<and> arg_remove_labels largs = [] \<longrightarrow>
      fails_before_remote_call (main_labels env largs))"
proof (intro conjI impI)
  assume "config_problem env dargs"
  then show "fails_before_remote_call (main_download env dargs output_issue)"
    unfolding main_download_def by (rule config_problem_fails)
next
  assume "config_problem env largs"
  then show "fails_before_remote_call (main_labels env largs)"
    unfolding main_labels_def by (rule config_problem_fails)
next
  assume "arg_add_labels largs = [] \<and> arg_remove_labels largs = []"
  then show "fails_before_remote_call (main_labels env largs)"
    by (simp add: main_labels_no_labels)
qed

text \<open>
  The statement at a missing file, a file without section headers, a file without a domain, a
  domain without a section, and a run without labels.
\<close>

theorem config_errors_exit_1_witness:
  "config_problem (example_env False (Inr example_ini)) (example_download_args None) \<and>
   main_download (example_env False (Inr example_ini)) (example_download_args None) (\<lambda>d j i. Continue)
     = Some ([Stderr ''Error: Configuration file config.ini not found''], SysExit 1) \<and>
   fails_before_remote_call
     (main_download (example_env True (Inl (EnvError ''MissingSectionHeaderError'')))
        (example_download_args None) (\<lambda>d j i. Continue)) \<and>
   config_problem (example_env True (Inr (example_ini\<lparr>defaults := []\<rparr>)))
     (example_label_args None [''x'']) \<and>
   fails_before_remote_call
     (main_labels (example_env True (Inr (example_ini\<lparr>defaults := []\<rparr>)))
        (example_label_args None [''x''])) \<and>
   config_problem (example_env True (Inr example_ini))
     (example_label_args (Some ''unknown.atlassian.net'') [''x'']) \<and>
   main_labels (example_env True (Inr example_ini))
       (example_label_args (Some ''unknown.atlassian.net'') [''x''])
     = Some ([Stderr ''Error: user is not specified in configuration file config.ini''], SysExit 1) \<and>
   arg_add_labels (example_label_args (Some ''example.atlassian.net'') []) = [] \<and>
   arg_remove_labels (example_label_args (Some ''example.atlassian.net'') []) = [] \<and>
   fails_before_remote_call
     (main_labels (example_env True (Inr example_ini))
        (example_label_args (Some ''example.atlassian.net'') []))"
proof -
  have a: "config_problem (example_env False (Inr example_ini)) (example_download_args None)"
    by (simp add: config_problem_def example_env_def example_download_args_def)
  have b: "config_problem (example_env True (Inl (EnvError ''MissingSectionHeaderError'')))
        (example_download_args None)"
    by (simp add: config_problem_def example_env_def example_download_args_def)
  have c: "config_problem (example_env True (Inr (example_ini\<lparr>defaults := []\<rparr>)))
     (example_label_args None [''x''])"
    by (simp add: config_problem_def example_env_def example_label_args_def example_ini_def
        cfg_get_def)
  have d: "config_problem (example_env True (Inr example_ini))
     (example_label_args (Some ''unknown.atlassian.net'') [''x''])"
    by (simp add: config_problem_def example_env_def example_label_args_def example_ini_def
        cfg_get_def cfg_get_fallback_def)
  have e: "arg_add_labels (example_label_args (Some ''example.atlassian.net'') []) = [] \<and>
      arg_remove_labels (example_label_args (Some ''example.atlassian.net'') []) = []"
    by (simp add: example_label_args_def)
  have f: "main_download (example_env False (Inr example_ini)) (example_download_args None)
      (\<lambda>d j i. Continue)
     = Some ([Stderr ''Error: Configuration file config.ini not found''], SysExit 1)"
    by (simp add: main_download_def load_credentials_def example_env_def
        example_download_args_def emit_def)
  have g: "main_labels (example_env True (Inr example_ini))
       (example_label_args (Some ''unknown.atlassian.net'') [''x''])
     = Some ([Stderr ''Error: user is not specified in configuration file config.ini''], SysExit 1)"
    by (simp add: main_labels_def load_credentials_def example_env_def example_ini_def
        example_label_args_def emit_def cfg_get_def cfg_get_fallback_def)
  show ?thesis
    using a b c d e f g
      config_errors_exit_1 [of "example_env False (Inr example_ini)" "example_download_args None"
        "\<lambda>d j i. Continue" "example_label_args None [''x'']"]
      config_errors_exit_1 [of "example_env True (Inl (EnvError ''MissingSectionHeaderError''))"
        "example_download_args None" "\<lambda>d j i. Continue" "example_label_args None [''x'']"]
      config_errors_exit_1 [of "example_env True (Inr (example_ini\<lparr>defaults := []\<rparr>))"
        "example_download_args None" "\<lambda>d j i. Continue" "example_label_args None [''x'']"]
      config_errors_exit_1 [of "example_env True (Inr example_ini)"
        "example_download_args None" "\<lambda>d j i. Continue"
        "example_label_args (Some ''example.atlassian.net'') []"]
    by simp
qed

text \<open>
  Claim C10. In the label tool a run without the domain argument ends with exit status 1 and
  a message on standard error before any request, whatever the configuration file holds; and
  in every run that ends, a connection is only ever made to the URL built from the domain
  argument of the command line.
\<close>

theorem label_tool_url_from_cli_only:
  "(arg_atlassian_domain largs = None \<longrightarrow> fails_before_remote_call (main_labels env largs)) \<and>
   (main_labels env largs = Some r \<longrightarrow>
      (\<forall>e \<in> set (fst r). \<forall>url. connect_url e = Some url \<longrightarrow>
         map_option ((@) ''https://'') (arg_atlassian_domain largs) = Some url))"
proof (intro conjI impI ballI allI)
  assume "arg_atlassian_domain largs = None"
  then show "fails_before_remote_call (main_labels env largs)"
    by (rule main_labels_no_domain)
next
  fix e url
  assume r: "main_labels env largs = Some r" and e: "e \<in> set (fst r)"
    and url: "connect_url e = Some url"
  from url have "is_connect e" by (rule connect_url_is_connect)
  with e have mem: "e \<in> set (filter is_connect (fst r))" by simp
  from main_labels_connect [OF r] mem obtain d u p where
    d: "arg_atlassian_domain largs = Some d" and
    f: "filter is_connect (fst r) = [Jira_connect (''https://'' @ d) u p]"
    by (cases "filter is_connect (fst r) = []") (simp, blast)
  from mem have "e = Jira_connect (''https://'' @ d) u p"
    unfolding f by simp
  with url d show "map_option ((@) ''https://'') (arg_atlassian_domain largs) = Some url"
    by simp
qed

text \<open>
  The statement at a configuration file that does supply a domain: without the argument the
  run ends in a TypeError, with the argument it connects to the argument's domain and not to
  the file's.
\<close>

theorem label_tool_url_from_cli_only_witness:
  "arg_atlassian_domain (example_label_args None [''x'']) = None \<and>
   main_labels (example_env True (Inr example_ini)) (example_label_args None [''x''])
     = Some ([Stdout ''No JQL specified'', Stdout ''No Jira keys specified'',
              Stdout ''Add labels: x'', Stdout ''There are no labels to remove''],
             Uncaught TypeError) \<and>
   fails_before_remote_call
     (main_labels (example_env True (Inr example_ini)) (example_label_args None [''x''])) \<and>
   main_labels (example_env True (Inr example_ini))
       (example_label_args (Some ''other.atlassian.net'') [''x''])
     = Some ([Stdout ''No JQL specified'', Stdout ''No Jira keys specified'',
              Stdout ''Add labels: x'', Stdout ''There are no labels to remove'',
              Jira_connect ''https://other.atlassian.net'' ''you'' ''hidden'',
              Stdout ''Processed 0 issue(s)'', Stdout ''Updated 0 issue(s)''], Returned) \<and>
   connect_url (Jira_connect ''https://other.atlassian.net'' ''you'' ''hidden'') =
     map_option ((@) ''https://'')
       (arg_atlassian_domain (example_label_args (Some ''other.atlassian.net'') [''x'']))"
proof -
  have a: "main_labels (example_env True (Inr example_ini)) (example_label_args None [''x''])
     = Some ([Stdout ''No JQL specified'', Stdout ''No Jira keys specified'',
              Stdout ''Add labels: x'', Stdout ''There are no labels to remove''],
             Uncaught TypeError)"
    by (simp add: main_labels_def load_credentials_def main_labels_rest_def example_env_def
        example_ini_def example_label_args_def emit_def cfg_get_def cfg_get_fallback_def)
  have b: "main_labels (example_env True (Inr example_ini))
       (example_label_args (Some ''other.atlassian.net'') [''x''])
     = Some ([Stdout ''No JQL specified'', Stdout ''No Jira keys specified'',
              Stdout ''Add labels: x'', Stdout ''There are no labels to remove'',
              Jira_connect ''https://other.atlassian.net'' ''you'' ''hidden'',
              Stdout ''Processed 0 issue(s)'', Stdout ''Updated 0 issue(s)''], Returned)"
    by (simp add: main_labels_def load_credentials_def main_labels_rest_def example_env_def
        example_ini_def example_label_args_def emit_def cfg_get_def cfg_get_fallback_def
        jira_get_issues_labels_def show_nat.simps digit_char_def)
  have c: "arg_atlassian_domain (example_label_args None [''x'']) = None"
    by (simp add: example_label_args_def)
  have d: "arg_atlassian_domain (example_label_args (Some ''other.atlassian.net'') [''x''])
      = Some ''other.atlassian.net''"
    by (simp add: example_label_args_def)
  show ?thesis
    using c
      label_tool_url_from_cli_only [of "example_label_args None [''x'']"
        "example_env True (Inr example_ini)"]
      label_tool_url_from_cli_only [of "example_label_args (Some ''other.atlassian.net'') [''x'']"
        "example_env True (Inr example_ini)", unfolded b d]
    unfolding a b by (simp add: d)
qed

section \<open>Properties of the wrappers\<close>

lemma and_then_Inr [simp]: "and_then (Inr v) k = k v"
  by (simp add: and_then_def)

lemma and_then_Inl [simp]: "and_then (Inl e) k = Inl e"
  by (simp add: and_then_def)

lemma and_then_eq_Inr:
  "and_then r k = Inr y \<longleftrightarrow> (\<exists>v. r = Inr v \<and> k v = Inr y)"
  by (cases r) auto

text \<open>What a constructed issue holds.\<close>

lemma new_JiraIssue_parts:
  assumes "new_JiraIssue data = Inr i"
  shows "issue_data i = data"
    and "get_value data ''fields'' JNull = Inr (issue_fields i)"
    and "create_object_from_field new_JiraIssue (issue_fields i) ''parent'' = Inr (parent_issue i)"
    and "create_object_from_field plain_wrapper (issue_fields i) ''resolution'' = Inr (resolution_object i)"
    and "create_object_from_field new_JiraCommentList (issue_fields i) ''comment'' = Inr (comments i)"
    and "create_object_from_field plain_wrapper (issue_fields i) ''reporter'' = Inr (reporter i)"
    and "create_object_from_field plain_wrapper (issue_fields i) ''assignee'' = Inr (assignee i)"
  using assms
  by (subst (asm) new_JiraIssue.simps, auto simp: and_then_eq_Inr)+


lemma get_value_JDict [simp]:
  "get_value (JDict kvs) key dflt = Inr (case map_of kvs key of None \<Rightarrow> dflt | Some v \<Rightarrow> v)"
  by (simp add: get_value_def py_get_def split: option.splits)

lemma get_field_JDict [simp]:
  "get_field (JDict kvs) key =
     Inr (case map_of kvs key of None \<Rightarrow> NOT_DOWNLOADED | Some v \<Rightarrow> Fetched v)"
  by (simp add: get_field_def split: option.splits)











text \<open>
  C8. Two wrappers around JSON objects are equal exactly when the values under \<open>self\<close> in
  their payloads are equal (a payload without the key has the value \<open>None\<close> there), whatever
  their classes and whatever else the payloads hold; for two URLs that is equality of the
  strings.
\<close>

theorem wrappers_equal_iff_self_urls_equal:
  "JiraRestObject_eq c1 (JDict d1) (Wrapper c2 (JDict d2)) =
     Inr (py_eq (case map_of d1 ''self'' of None \<Rightarrow> JNull | Some v \<Rightarrow> v)
                (case map_of d2 ''self'' of None \<Rightarrow> JNull | Some v \<Rightarrow> v))
   \<and> (map_of d1 ''self'' = Some (JStr u1) \<longrightarrow> map_of d2 ''self'' = Some (JStr u2) \<longrightarrow>
        JiraRestObject_eq c1 (JDict d1) (Wrapper c2 (JDict d2)) = Inr (u1 = u2))"
  by (simp add: self_url_def)

theorem wrappers_equal_iff_self_urls_equal_witness:
  "JiraRestObject_eq JiraAuthor
     (JDict [(''self'', JStr ''https://x/rest/api/2/user?id=1''), (''displayName'', JStr ''A'')])
     (Wrapper JiraPriority
        (JDict [(''name'', JStr ''High''), (''self'', JStr ''https://x/rest/api/2/user?id=1'')]))
     = Inr True
   \<and> JiraRestObject_eq JiraAuthor
     (JDict [(''self'', JStr ''https://x/rest/api/2/user?id=1''), (''displayName'', JStr ''A'')])
     (Wrapper JiraAuthor
        (JDict [(''self'', JStr ''https://x/rest/api/2/user?id=2''), (''displayName'', JStr ''A'')]))
     = Inr False"
  using wrappers_equal_iff_self_urls_equal
    [of JiraAuthor "[(''self'', JStr ''https://x/rest/api/2/user?id=1''), (''displayName'', JStr ''A'')]"
        JiraPriority "[(''name'', JStr ''High''), (''self'', JStr ''https://x/rest/api/2/user?id=1'')]"
        "''https://x/rest/api/2/user?id=1''" "''https://x/rest/api/2/user?id=1''"]
    wrappers_equal_iff_self_urls_equal
    [of JiraAuthor "[(''self'', JStr ''https://x/rest/api/2/user?id=1''), (''displayName'', JStr ''A'')]"
        JiraAuthor "[(''self'', JStr ''https://x/rest/api/2/user?id=2''), (''displayName'', JStr ''A'')]"
        "''https://x/rest/api/2/user?id=1''" "''https://x/rest/api/2/user?id=2''"]
  by simp

lemma and_then_assoc:
  "and_then (and_then r k) g = and_then r (\<lambda>v. and_then (k v) g)"
  by (cases r) auto

lemma create_object_from_field_null:
  assumes "map_of fs k = None" "map_of fs' = (map_of fs)(k \<mapsto> JNull)"
  shows "create_object_from_field cls (JDict fs') key = create_object_from_field cls (JDict fs) key"
  using assms by (simp add: create_object_from_field_def)

lemma py_get_other:
  assumes "map_of fs' = (map_of fs)(k \<mapsto> v)" "key \<noteq> k"
  shows "py_get (JDict fs') key d = py_get (JDict fs) key d"
  using assms by (simp add: py_get_def)

lemma get_field_other:
  assumes "map_of fs' = (map_of fs)(k \<mapsto> v)" "key \<noteq> k"
  shows "get_field (JDict fs') key = get_field (JDict fs) key"
  using assms by simp

lemma new_JiraIssue_null_field:
  assumes kvs: "map_of kvs ''fields'' = Some (JDict fs)"
    and kvs': "map_of kvs' = (map_of kvs)(''fields'' \<mapsto> JDict fs')"
    and fs: "map_of fs k = None"
    and fs': "map_of fs' = (map_of fs)(k \<mapsto> JNull)"
    and k: "k \<noteq> ''subtasks''" "k \<noteq> ''attachment''"
  shows "new_JiraIssue (JDict kvs') =
           and_then (new_JiraIssue (JDict kvs)) (\<lambda>i.
             Inr (Issue (JDict kvs') (JDict fs') (parent_issue i) (resolution_object i)
                    (comments i) (status i) (priority i) (reporter i) (assignee i) (issuetype i)
                    (subtasks i) (attachment i)))"
proof -
  have a: "get_value (JDict kvs') ''fields'' JNull = Inr (JDict fs')"
    by (simp add: kvs')
  have b: "get_value (JDict kvs) ''fields'' JNull = Inr (JDict fs)"
    by (simp add: kvs)
  have c: "\<And>cls key. create_object_from_field cls (JDict fs') key =
                create_object_from_field cls (JDict fs) key"
    using fs fs' by (rule create_object_from_field_null)
  have d: "\<And>d. py_get (JDict fs') ''subtasks'' d = py_get (JDict fs) ''subtasks'' d"
    "\<And>d. py_get (JDict fs') ''attachment'' d = py_get (JDict fs) ''attachment'' d"
    using fs' k by (auto intro: py_get_other)
  show ?thesis
    unfolding new_JiraIssue.simps [of "JDict kvs'"] new_JiraIssue.simps [of "JDict kvs"]
    by (simp add: kvs kvs' c d and_then_assoc)
qed

lemma to_text_null_same:
  assumes d: "issue_data i = JDict kvs" and f: "issue_fields i = JDict fs"
    and kvs': "map_of kvs' = (map_of kvs)(''fields'' \<mapsto> JDict fs')"
    and fs': "map_of fs' = (map_of fs)(k \<mapsto> JNull)"
    and k: "k \<noteq> ''summary''" "k \<noteq> ''description''" "k \<noteq> ''labels''" "k \<noteq> ''created''"
  shows "to_text (Issue (JDict kvs') (JDict fs') (parent_issue i) (resolution_object i)
                    (comments i) (status i) (priority i) (reporter i) (assignee i) (issuetype i)
                    (subtasks i) (attachment i)) = to_text i"
  using k by (simp add: to_text_def issue_key_def d f kvs' fs')

lemma issue_text_null_same:
  assumes kvs: "map_of kvs ''fields'' = Some (JDict fs)"
    and kvs': "map_of kvs' = (map_of kvs)(''fields'' \<mapsto> JDict fs')"
    and fs: "map_of fs k = None"
    and fs': "map_of fs' = (map_of fs)(k \<mapsto> JNull)"
    and k: "k \<notin> {''summary'', ''description'', ''labels'', ''created'', ''subtasks'', ''attachment''}"
  shows "issue_text (JDict kvs') = issue_text (JDict kvs)"
proof (cases "new_JiraIssue (JDict kvs)")
  case (Inl e)
  moreover from k have "k \<noteq> ''subtasks''" "k \<noteq> ''attachment''" by auto
  note new_JiraIssue_null_field [OF kvs kvs' fs fs' this]
  ultimately show ?thesis by (simp add: issue_text_def)
next
  case (Inr i)
  from k have "k \<noteq> ''subtasks''" "k \<noteq> ''attachment''" by auto
  note n = new_JiraIssue_null_field [OF kvs kvs' fs fs' this]
  have d: "issue_data i = JDict kvs"
    using new_JiraIssue_parts(1) [OF Inr] .
  have f: "issue_fields i = JDict fs"
    using new_JiraIssue_parts(2) [OF Inr] by (simp add: kvs)
  from k have "k \<noteq> ''summary''" "k \<noteq> ''description''" "k \<noteq> ''labels''" "k \<noteq> ''created''"
    by auto
  note to_text_null_same [OF d f kvs' fs' this]
  then show ?thesis
    by (simp add: issue_text_def n Inr)
qed

lemma and_then_differs:
  assumes "and_then r k = Inr t"
    and "\<And>v. r = Inr v \<Longrightarrow> k v = Inr t \<Longrightarrow> \<exists>t'. k' v = Inr t' \<and> t' \<noteq> t"
  shows "\<exists>t'. and_then r k' = Inr t' \<and> t' \<noteq> t"
  using assms by (cases r) auto

lemma to_text_null_differs:
  assumes d: "issue_data i = JDict kvs" and f: "issue_fields i = JDict fs"
    and kvs': "map_of kvs' = (map_of kvs)(''fields'' \<mapsto> JDict fs')"
    and fs: "map_of fs k = None"
    and fs': "map_of fs' = (map_of fs)(k \<mapsto> JNull)"
    and k: "k \<in> {''summary'', ''description'', ''created''}"
    and t: "to_text i = Inr t"
  shows "\<exists>t'. to_text (Issue (JDict kvs') (JDict fs') (parent_issue i) (resolution_object i)
                    (comments i) (status i) (priority i) (reporter i) (assignee i) (issuetype i)
                    (subtasks i) (attachment i)) = Inr t' \<and> t' \<noteq> t"
  using k t fs
  apply (elim insertE emptyE)
    apply (simp_all add: to_text_def issue_key_def d f kvs' fs' split del: if_split cong del: if_weak_cong)
    apply (erule and_then_differs)+
    apply clarsimp
    apply (erule and_then_differs)+
    apply clarsimp
    apply (erule and_then_differs)+
    apply clarsimp
  done

lemmas wrapper_defs =
  example_issue_def example_fields_def create_object_from_field_def plain_wrapper_def
  new_JiraCommentList_def new_JiraStatus_def create_object_from_value_def py_get_def
  to_text_def to_struct_def issue_key_def display_name_def join_labels_def py_join_def
  JiraCommentList_to_text_def JiraCommentList_to_struct_def example_text_def

lemma example_issue_text:
  "issue_text (example_issue example_fields) = Inr example_text"
  unfolding issue_text_def new_JiraIssue.simps [of "example_issue example_fields"]
  by (simp add: wrapper_defs)

lemma example_issue_text_null:
  "issue_text (example_issue ((''reporter'', JNull) # example_fields)) = Inr example_text"
  unfolding issue_text_def new_JiraIssue.simps [of "example_issue ((''reporter'', JNull) # example_fields)"]
  by (simp add: wrapper_defs)


lemma example_issue_text_without_description:
  "issue_text (example_issue (example_fields_without ''description'')) =
     Inr example_text_without_description"
  unfolding issue_text_def
    new_JiraIssue.simps [of "example_issue (example_fields_without ''description'')"]
  by (simp add: wrapper_defs example_fields_without_def example_text_without_description_def)

lemma issue_text_null_differs:
  assumes kvs: "map_of kvs ''fields'' = Some (JDict fs)"
    and kvs': "map_of kvs' = (map_of kvs)(''fields'' \<mapsto> JDict fs')"
    and fs: "map_of fs k = None"
    and fs': "map_of fs' = (map_of fs)(k \<mapsto> JNull)"
    and k: "k \<in> {''summary'', ''description'', ''created''}"
    and t: "issue_text (JDict kvs) = Inr t"
  shows "\<exists>t'. issue_text (JDict kvs') = Inr t' \<and> t' \<noteq> t"
proof -
  from t obtain i where i: "new_JiraIssue (JDict kvs) = Inr i" and ti: "to_text i = Inr t"
    by (auto simp: issue_text_def and_then_eq_Inr)
  from k have "k \<noteq> ''subtasks''" "k \<noteq> ''attachment''" by auto
  note n = new_JiraIssue_null_field [OF kvs kvs' fs fs' this]
  have d: "issue_data i = JDict kvs"
    using new_JiraIssue_parts(1) [OF i] .
  have f: "issue_fields i = JDict fs"
    using new_JiraIssue_parts(2) [OF i] by (simp add: kvs)
  from to_text_null_differs [OF d f kvs' fs fs' k ti] show ?thesis
    by (simp add: issue_text_def n i)
qed

text \<open>
  C2, as the code has it. A field that the text form prints as it is (\<open>summary\<close>,
  \<open>description\<close>, \<open>created\<close>) gives another text when it is null than when it is absent. A
  field that the constructor wraps (\<open>reporter\<close>, \<open>assignee\<close>, \<open>resolution\<close>, \<open>comment\<close>) gives
  the same result, null or absent.
\<close>

theorem text_form_of_null_and_absent_field:
  assumes "map_of kvs ''fields'' = Some (JDict fs)"
    and "map_of kvs' = (map_of kvs)(''fields'' \<mapsto> JDict fs')"
    and "map_of fs k = None"
    and "map_of fs' = (map_of fs)(k \<mapsto> JNull)"
  shows "(k \<in> {''summary'', ''description'', ''created''} \<longrightarrow>
            (\<forall>t. issue_text (JDict kvs) = Inr t \<longrightarrow>
                 (\<exists>t'. issue_text (JDict kvs') = Inr t' \<and> t' \<noteq> t)))
       \<and> (k \<in> {''reporter'', ''assignee'', ''resolution'', ''comment''} \<longrightarrow>
            issue_text (JDict kvs') = issue_text (JDict kvs))"
proof (intro conjI impI allI)
  fix t
  assume "k \<in> {''summary'', ''description'', ''created''}" "issue_text (JDict kvs) = Inr t"
  with assms show "\<exists>t'. issue_text (JDict kvs') = Inr t' \<and> t' \<noteq> t"
    by (rule issue_text_null_differs)
next
  assume "k \<in> {''reporter'', ''assignee'', ''resolution'', ''comment''}"
  then have "k \<notin> {''summary'', ''description'', ''labels'', ''created'', ''subtasks'',
                  ''attachment''}"
    by auto
  with assms show "issue_text (JDict kvs') = issue_text (JDict kvs)"
    by (rule issue_text_null_same)
qed

theorem text_form_of_null_and_absent_field_witness:
  "issue_text (example_issue (example_fields_without ''description'')) =
     Inr example_text_without_description
   \<and> (\<exists>t'. issue_text (example_issue ((''description'', JNull) #
                                          example_fields_without ''description'')) = Inr t'
            \<and> t' \<noteq> example_text_without_description)
   \<and> issue_text (example_issue ((''assignee'', JNull) # example_fields)) =
       issue_text (example_issue example_fields)"
proof -
  have a: "map_of [(''key'', JStr ''X-1''), (''fields'', JDict fs')] =
             (map_of [(''key'', JStr ''X-1''), (''fields'', JDict fs)])(''fields'' \<mapsto> JDict fs')"
    for fs fs'
    by (rule ext) simp
  have b: "map_of ((k, JNull) # fs) = (map_of fs)(k \<mapsto> JNull)" for k fs
    by simp
  have c: "map_of (example_fields_without ''description'') ''description'' = None"
    "map_of example_fields ''assignee'' = None"
    by (simp_all add: example_fields_without_def example_fields_def)
  show ?thesis
    using text_form_of_null_and_absent_field
      [of "[(''key'', JStr ''X-1''), (''fields'', JDict (example_fields_without ''description''))]"
        "example_fields_without ''description''"
        "[(''key'', JStr ''X-1''),
          (''fields'', JDict ((''description'', JNull) # example_fields_without ''description''))]"
        "(''description'', JNull) # example_fields_without ''description''"
        "''description''", OF _ a c(1) b]
      text_form_of_null_and_absent_field
      [of "[(''key'', JStr ''X-1''), (''fields'', JDict example_fields)]"
        example_fields
        "[(''key'', JStr ''X-1''), (''fields'', JDict ((''assignee'', JNull) # example_fields))]"
        "(''assignee'', JNull) # example_fields"
        "''assignee''", OF _ a c(2) b]
      example_issue_text_without_description
    by (simp add: example_issue_def)
qed

text \<open>
  C2, as it is stated, fails for the reporter: the record of the example and the same record
  with the reporter set to null have the same text form, with \<open>Reporter: Unknown\<close>.
\<close>

theorem null_reporter_same_text_counterexample:
  "map_of example_fields ''reporter'' = None
   \<and> issue_text (example_issue example_fields) = Inr example_text
   \<and> issue_text (example_issue ((''reporter'', JNull) # example_fields)) = Inr example_text"
  using example_issue_text example_issue_text_null
  by (simp add: example_fields_def)


end
